theory Spec2Isabelle
  imports Complex_Main "HOL-Library.List_Lexorder" "HOL-Library.Char_ord" "HOL-Library.Multiset"
begin

section \<open>Numbers, errors and form fields\<close>

text \<open>
  The application (\<^verbatim>\<open>app.py\<close>) computes with Python floats read from SQLite \<^verbatim>\<open>REAL\<close>
  columns. They are modelled as exact rationals: rounding, infinities and NaN are outside
  the model. A nullable column is a \<open>rat option\<close>.

  Python's \<^verbatim>\<open>/\<close> raises \<^verbatim>\<open>ZeroDivisionError\<close> on a zero divisor; the model keeps that
  as a value, so a guard that protects a division is visible in the result type.
\<close>

datatype py_error = ZeroDivisionError | ValueError

definition py_div :: "rat \<Rightarrow> rat \<Rightarrow> py_error + rat" where
  "py_div a b = (if b = 0 then Inl ZeroDivisionError else Inr (a / b))"

definition ebind :: "'e + 'a \<Rightarrow> ('a \<Rightarrow> 'e + 'b) \<Rightarrow> 'e + 'b" where
  "ebind m f = (case m of Inl e \<Rightarrow> Inl e | Inr v \<Rightarrow> f v)"

fun emap :: "('a \<Rightarrow> 'e + 'b) \<Rightarrow> 'a list \<Rightarrow> 'e + 'b list" where
  "emap f [] = Inr []"
| "emap f (x # xs) = ebind (f x) (\<lambda>y. ebind (emap f xs) (\<lambda>ys. Inr (y # ys)))"

text \<open>\<^verbatim>\<open>x or 0.0\<close>: \<^verbatim>\<open>None\<close> and zero are both falsy.\<close>

definition or_zero :: "rat option \<Rightarrow> rat" where
  "or_zero x = (case x of None \<Rightarrow> 0 | Some v \<Rightarrow> if v = 0 then 0 else v)"


text \<open>
  The expression \<^verbatim>\<open>(pl / ti) * 100 if ti > 0 else 0.0\<close>, which the source repeats for
  an asset, an account, a platform, a user, the global totals and both simulations.
\<close>

definition guarded_percent :: "rat \<Rightarrow> rat \<Rightarrow> py_error + rat" where
  "guarded_percent pl ti =
     (if ti > 0 then ebind (py_div pl ti) (\<lambda>q. Inr (q * 100)) else Inr 0)"


section \<open>The persistent store\<close>

record user =
  u_user_id :: int
  u_name :: string

record platform =
  p_platform_id :: int
  p_name :: string

record account =
  acc_account_id :: int
  acc_user_id :: int
  acc_platform_id :: int
  acc_account_type :: string
  acc_account_name :: string
  acc_cash_balance :: "rat option"

record asset =
  ast_asset_id :: int
  ast_account_id :: int
  ast_ticker_symbol :: string
  ast_name :: "string option"
  ast_quantity :: "rat option"
  ast_average_cost :: "rat option"
  ast_total_invested :: "rat option"
  ast_current_price :: "rat option"
  ast_price_yesterday :: "rat option"
  ast_fifty_two_week_high :: "rat option"
  ast_fifty_two_week_low :: "rat option"

text \<open>
  \<^verbatim>\<open>portfolio_history(snapshot_date TEXT PRIMARY KEY, total_portfolio_value REAL)\<close>:
  rows in insertion order, the date as its ISO string.
\<close>

type_synonym history = "(string \<times> rat) list"

record db =
  db_users :: "user list"
  db_platforms :: "platform list"
  db_accounts :: "account list"
  db_assets :: "asset list"
  db_portfolio_history :: history

text \<open>\<^verbatim>\<open>SELECT ... FROM assets WHERE asset_id = ?\<close> with \<^verbatim>\<open>one=True\<close>: the first row or \<^verbatim>\<open>None\<close>.\<close>

definition asset_by_id :: "asset list \<Rightarrow> int \<Rightarrow> asset option" where
  "asset_by_id assets i = find (\<lambda>a. ast_asset_id a = i) assets"

section \<open>Sell simulation\<close>





section \<open>Buy simulation\<close>






section \<open>Per-asset derivation\<close>

text \<open>
  The derived keys that \<^verbatim>\<open>index\<close> and \<^verbatim>\<open>manage_account_assets\<close> add to the dictionary of
  an asset row, with the same statements in both places.
\<close>

record asset_metrics =
  m_total_invested :: rat
  m_quantity :: rat
  m_current_value :: rat
  m_profit_loss_dollars :: rat
  m_profit_loss_percent :: rat
  m_day_change_percent :: rat
  m_percent_to_52_week_high :: "rat option"

definition day_change_percent :: "rat option \<Rightarrow> rat option \<Rightarrow> py_error + rat" where
  "day_change_percent current_price price_yesterday =
     (case current_price of
        None \<Rightarrow> Inr 0
      | Some cp \<Rightarrow>
         (case price_yesterday of
            None \<Rightarrow> Inr 0
          | Some py \<Rightarrow>
              if py > 0 then ebind (py_div (cp - py) py) (\<lambda>q. Inr (q * 100)) else Inr 0))"

definition percent_to_52_week_high :: "rat option \<Rightarrow> rat option \<Rightarrow> py_error + rat option" where
  "percent_to_52_week_high current_price fifty_two_week_high =
     (case current_price of
        None \<Rightarrow> Inr None
      | Some cp \<Rightarrow>
         (case fifty_two_week_high of
            None \<Rightarrow> Inr None
          | Some hi \<Rightarrow>
              if hi > 0 then ebind (py_div (cp - hi) hi) (\<lambda>q. Inr (Some (q * 100)))
              else Inr None))"

definition derive_asset_metrics :: "asset \<Rightarrow> py_error + asset_metrics" where
  "derive_asset_metrics a =
     (let total_invested = or_zero (ast_total_invested a);
          quantity = or_zero (ast_quantity a);
          current_value =
            (case ast_current_price a of None \<Rightarrow> 0 | Some cp \<Rightarrow> quantity * cp);
          profit_loss_dollars = current_value - total_invested
      in ebind (guarded_percent profit_loss_dollars total_invested)
        (\<lambda>profit_loss_percent.
          ebind (day_change_percent (ast_current_price a) (ast_price_yesterday a))
            (\<lambda>day_change.
              ebind (percent_to_52_week_high (ast_current_price a)
                       (ast_fifty_two_week_high a))
                (\<lambda>to_high.
                  Inr \<lparr> m_total_invested = total_invested,
                        m_quantity = quantity,
                        m_current_value = current_value,
                        m_profit_loss_dollars = profit_loss_dollars,
                        m_profit_loss_percent = profit_loss_percent,
                        m_day_change_percent = day_change,
                        m_percent_to_52_week_high = to_high \<rparr>))))"

text \<open>
  \<^verbatim>\<open>assets_list_for_template\<close> of \<^verbatim>\<open>manage_account_assets\<close>: the assets of one account,
  \<^verbatim>\<open>ORDER BY ticker_symbol\<close>, each with its derived keys.
\<close>

definition assets_list_for_template :: "db \<Rightarrow> int \<Rightarrow> py_error + (asset \<times> asset_metrics) list"
  where
  "assets_list_for_template d account_id =
     emap (\<lambda>a. ebind (derive_asset_metrics a) (\<lambda>m. Inr (a, m)))
       (sort_key ast_ticker_symbol (filter (\<lambda>a. ast_account_id a = account_id) (db_assets d)))"

section \<open>The dashboard: rows, totals and ranking\<close>

text \<open>
  A row of \<^verbatim>\<open>assets_query_for_dashboard\<close>: an asset joined to its account, user and
  platform. SQL leaves the row order open; the model takes the nested-loop order.
\<close>

record dashboard_row =
  r_asset :: asset
  r_account_id :: int
  r_account_name :: string
  r_user_id :: int
  r_platform_id :: int
  r_user_name :: string
  r_platform_name :: string
  r_account_type :: string

definition assets_query_for_dashboard :: "db \<Rightarrow> dashboard_row list" where
  "assets_query_for_dashboard d =
     [\<lparr> r_asset = ast, r_account_id = acc_account_id acc,
         r_account_name = acc_account_name acc, r_user_id = acc_user_id acc,
         r_platform_id = acc_platform_id acc, r_user_name = u_name u,
         r_platform_name = p_name p, r_account_type = acc_account_type acc \<rparr>.
        ast \<leftarrow> db_assets d,
        acc \<leftarrow> db_accounts d, ast_account_id ast = acc_account_id acc,
        u \<leftarrow> db_users d, acc_user_id acc = u_user_id u,
        p \<leftarrow> db_platforms d, acc_platform_id acc = p_platform_id p]"

type_synonym chart_data = "(string \<times> rat) list"

text \<open>
  \<^verbatim>\<open>asset_detail\<close>: the row dictionary with the derived keys, and the key
  \<^verbatim>\<open>yearly_chart_data\<close> that only the best and the worst performer receive.
\<close>

record asset_detail =
  ad_row :: dashboard_row
  ad_metrics :: asset_metrics
  ad_yearly_chart_data :: "chart_data option"

abbreviation ad_total_invested :: "asset_detail \<Rightarrow> rat" where
  "ad_total_invested x \<equiv> m_total_invested (ad_metrics x)"

abbreviation ad_current_value :: "asset_detail \<Rightarrow> rat" where
  "ad_current_value x \<equiv> m_current_value (ad_metrics x)"

abbreviation ad_profit_loss_percent :: "asset_detail \<Rightarrow> rat" where
  "ad_profit_loss_percent x \<equiv> m_profit_loss_percent (ad_metrics x)"

definition asset_detail_of :: "dashboard_row \<Rightarrow> py_error + asset_detail" where
  "asset_detail_of asset_row =
     ebind (derive_asset_metrics (r_asset asset_row))
       (\<lambda>m. Inr \<lparr> ad_row = asset_row, ad_metrics = m, ad_yearly_chart_data = None \<rparr>)"

text \<open>An accumulator loop \<^verbatim>\<open>total += f(x)\<close> over a list, started at \<^verbatim>\<open>0.0\<close>.\<close>

definition accumulate :: "('a \<Rightarrow> rat) \<Rightarrow> 'a list \<Rightarrow> rat" where
  "accumulate f xs = foldl (\<lambda>total x. total + f x) 0 xs"

text \<open>
  \<^verbatim>\<open>sorted(xs, key=k, reverse=True)\<close>: a stable sort in descending key order. CPython
  reverses the list, sorts it stably in ascending order and reverses the result.
\<close>

definition sorted_reverse :: "('a \<Rightarrow> rat) \<Rightarrow> 'a list \<Rightarrow> 'a list" where
  "sorted_reverse k xs = rev (sort_key k (rev xs))"

text \<open>
  \<^verbatim>\<open>valid_assets_for_ranking\<close> and \<^verbatim>\<open>sorted_assets\<close>. The test
  \<^verbatim>\<open>a.get('profit_loss_percent') is not None\<close> always holds, since the derivation stores
  a number under that key.

  The dictionaries of \<^verbatim>\<open>all_assets_detailed\<close> are shared by \<^verbatim>\<open>sorted_assets\<close>, by the
  best and worst performer and by the account summaries, so the chart data stored into
  the best and worst performer shows in all of them. A position in
  \<^verbatim>\<open>all_assets_detailed\<close> stands for the identity of a dictionary: the ranking sorts
  positions, and the chart data is stored at a position.
\<close>

definition rank_assets :: "asset_detail list \<Rightarrow> nat list" where
  "rank_assets ds =
     sorted_reverse (\<lambda>i. ad_profit_loss_percent (ds ! i))
       (filter (\<lambda>i. ad_total_invested (ds ! i) > 0) [0..<length ds])"

definition attach_chart :: "(string \<Rightarrow> chart_data) \<Rightarrow> nat \<Rightarrow> asset_detail list \<Rightarrow> asset_detail list"
  where
  "attach_chart fetch_yearly_historical_data i ds =
     ds[i := (ds ! i)\<lparr> ad_yearly_chart_data :=
                Some (fetch_yearly_historical_data
                        (ast_ticker_symbol (r_asset (ad_row (ds ! i))))) \<rparr>]"

record ranking =
  rk_all_assets_detailed :: "asset_detail list"
  rk_best_performing_asset :: "asset_detail option"
  rk_worst_performing_asset :: "asset_detail option"
  rk_all_assets_ranked :: "asset_detail list"

definition rank_and_chart :: "(string \<Rightarrow> chart_data) \<Rightarrow> asset_detail list \<Rightarrow> ranking" where
  "rank_and_chart fetch_yearly_historical_data ds =
     (let sorted_assets = rank_assets ds
      in if sorted_assets = []
         then \<lparr> rk_all_assets_detailed = ds, rk_best_performing_asset = None,
                rk_worst_performing_asset = None, rk_all_assets_ranked = [] \<rparr>
         else
           let best = hd sorted_assets;
               worst = last sorted_assets;
               ds' = attach_chart fetch_yearly_historical_data worst
                       (attach_chart fetch_yearly_historical_data best ds)
           in \<lparr> rk_all_assets_detailed = ds',
                 rk_best_performing_asset = Some (ds' ! best),
                 rk_worst_performing_asset = Some (ds' ! worst),
                 rk_all_assets_ranked = map (\<lambda>i. ds' ! i) sorted_assets \<rparr>)"

text \<open>
  \<^verbatim>\<open>SELECT SUM(cash_balance) FROM accounts\<close>: the sum of the values that are not null,
  null when there is none.
\<close>

definition sql_sum :: "rat option list \<Rightarrow> rat option" where
  "sql_sum vs =
     (case List.map_filter (\<lambda>v. v) vs of [] \<Rightarrow> None | x # xs \<Rightarrow> Some (sum_list (x # xs)))"

section \<open>The dashboard: the daily snapshot\<close>

text \<open>
  An \<^verbatim>\<open>INSERT\<close> into \<^verbatim>\<open>portfolio_history\<close>: the primary key on \<^verbatim>\<open>snapshot_date\<close> rejects
  a second row for a date (\<^verbatim>\<open>query_db\<close> catches the error and the table is unchanged).
\<close>

definition insert_snapshot :: "string \<Rightarrow> rat \<Rightarrow> history \<Rightarrow> history" where
  "insert_snapshot snapshot_date v h =
     (if snapshot_date \<in> set (map fst h) then h else h @ [(snapshot_date, v)])"

text \<open>
  \<^verbatim>\<open>last_snapshot = query_db("SELECT ... WHERE snapshot_date = ?", [today_str], one=True)\<close>
  and the insertion under \<^verbatim>\<open>if not last_snapshot\<close>.
\<close>

definition record_snapshot :: "string \<Rightarrow> rat \<Rightarrow> history \<Rightarrow> history" where
  "record_snapshot today_str overall_portfolio_value h =
     (case find (\<lambda>row. fst row = today_str) h of
        None \<Rightarrow> insert_snapshot today_str overall_portfolio_value h
      | Some last_snapshot \<Rightarrow> h)"

section \<open>The dashboard: the breakdown by user, platform and account\<close>

record account_summary =
  as_account_id :: int
  as_account_name :: string
  as_account_type :: string
  as_cash_balance :: rat
  as_total_invested :: rat
  as_current_value_of_assets :: rat
  as_assets :: "asset_detail list"
  as_profit_loss_amount :: rat
  as_profit_loss_percent :: rat

record account_performance =
  ap_user_name :: string
  ap_platform_name :: string
  ap_account_name :: string
  ap_display_name :: string
  ap_total_invested :: rat
  ap_current_value_of_assets :: rat
  ap_total_value :: rat
  ap_profit_loss_dollars :: rat
  ap_profit_loss_percent :: rat

record platform_summary =
  ps_platform_name :: string
  ps_total_invested :: rat
  ps_current_value_of_assets :: rat
  ps_total_cash :: rat
  ps_accounts :: "account_summary list"
  ps_profit_loss_amount :: rat
  ps_profit_loss_percent :: rat

record user_summary =
  us_user_name :: string
  us_user_id :: int
  us_total_invested :: rat
  us_current_value_of_assets :: rat
  us_total_cash :: rat
  us_platforms :: "platform_summary list"
  us_profit_loss_amount :: rat
  us_profit_loss_percent :: rat

text \<open>The body of \<^verbatim>\<open>for account_row in accounts_on_platform\<close> up to the percent.\<close>

definition summarise_account :: "asset_detail list \<Rightarrow> account \<Rightarrow> py_error + account_summary" where
  "summarise_account all_assets_detailed account_row =
     (let assets_in_account =
            filter (\<lambda>a. r_account_id (ad_row a) = acc_account_id account_row)
              all_assets_detailed;
          total_invested = accumulate ad_total_invested assets_in_account;
          current_value_of_assets = accumulate ad_current_value assets_in_account;
          profit_loss_amount = current_value_of_assets - total_invested
      in ebind (guarded_percent profit_loss_amount total_invested)
        (\<lambda>profit_loss_percent.
          Inr \<lparr> as_account_id = acc_account_id account_row,
                as_account_name = acc_account_name account_row,
                as_account_type = acc_account_type account_row,
                as_cash_balance = or_zero (acc_cash_balance account_row),
                as_total_invested = total_invested,
                as_current_value_of_assets = current_value_of_assets,
                as_assets = assets_in_account,
                as_profit_loss_amount = profit_loss_amount,
                as_profit_loss_percent = profit_loss_percent \<rparr>))"

text \<open>The entry appended to \<^verbatim>\<open>all_accounts_performance_data\<close> for an account.\<close>

definition account_performance_of ::
  "user \<Rightarrow> platform \<Rightarrow> account_summary \<Rightarrow> account_performance" where
  "account_performance_of user_row platform_row account_summary_data =
     \<lparr> ap_user_name = u_name user_row,
       ap_platform_name = p_name platform_row,
       ap_account_name = as_account_name account_summary_data,
       ap_display_name =
         u_name user_row @ '' - '' @ as_account_name account_summary_data
           @ '' ('' @ p_name platform_row @ '')'',
       ap_total_invested = as_total_invested account_summary_data,
       ap_current_value_of_assets = as_current_value_of_assets account_summary_data,
       ap_total_value =
         as_current_value_of_assets account_summary_data
           + as_cash_balance account_summary_data,
       ap_profit_loss_dollars = as_profit_loss_amount account_summary_data,
       ap_profit_loss_percent = as_profit_loss_percent account_summary_data \<rparr>"

definition accounts_on_platform :: "db \<Rightarrow> int \<Rightarrow> int \<Rightarrow> account list" where
  "accounts_on_platform d user_id platform_id =
     sort_key acc_account_name
       (filter (\<lambda>a. acc_user_id a = user_id \<and> acc_platform_id a = platform_id)
          (db_accounts d))"

text \<open>
  The body of \<^verbatim>\<open>for platform_row in user_platforms\<close>: the platform summary, and the
  performance entries of its accounts in the order they are appended.
\<close>

definition summarise_platform ::
  "db \<Rightarrow> asset_detail list \<Rightarrow> user \<Rightarrow> platform
     \<Rightarrow> py_error + (platform_summary \<times> account_performance list)" where
  "summarise_platform d all_assets_detailed user_row platform_row =
     ebind (emap (summarise_account all_assets_detailed)
              (accounts_on_platform d (u_user_id user_row) (p_platform_id platform_row)))
       (\<lambda>accounts.
         let total_invested = accumulate as_total_invested accounts;
             current_value_of_assets = accumulate as_current_value_of_assets accounts;
             total_cash = accumulate as_cash_balance accounts;
             profit_loss_amount = current_value_of_assets - total_invested
         in ebind (guarded_percent profit_loss_amount total_invested)
           (\<lambda>profit_loss_percent.
             Inr (\<lparr> ps_platform_name = p_name platform_row,
                     ps_total_invested = total_invested,
                     ps_current_value_of_assets = current_value_of_assets,
                     ps_total_cash = total_cash,
                     ps_accounts = accounts,
                     ps_profit_loss_amount = profit_loss_amount,
                     ps_profit_loss_percent = profit_loss_percent \<rparr>,
                  map (account_performance_of user_row platform_row) accounts)))"

text \<open>
  \<^verbatim>\<open>SELECT DISTINCT p.platform_id, p.name FROM platforms p JOIN accounts acc ...
  WHERE acc.user_id = ? ORDER BY p.name\<close>.
\<close>

definition user_platforms :: "db \<Rightarrow> int \<Rightarrow> platform list" where
  "user_platforms d user_id =
     sort_key p_name
       (remdups [p. p \<leftarrow> db_platforms d, acc \<leftarrow> db_accounts d,
                    p_platform_id p = acc_platform_id acc, acc_user_id acc = user_id])"

definition summarise_user ::
  "db \<Rightarrow> asset_detail list \<Rightarrow> user \<Rightarrow> py_error + (user_summary \<times> account_performance list)"
  where
  "summarise_user d all_assets_detailed user_row =
     ebind (emap (summarise_platform d all_assets_detailed user_row)
              (user_platforms d (u_user_id user_row)))
       (\<lambda>results.
         let platforms = map fst results;
             total_invested = accumulate ps_total_invested platforms;
             current_value_of_assets = accumulate ps_current_value_of_assets platforms;
             total_cash = accumulate ps_total_cash platforms;
             profit_loss_amount = current_value_of_assets - total_invested
         in ebind (guarded_percent profit_loss_amount total_invested)
           (\<lambda>profit_loss_percent.
             Inr (\<lparr> us_user_name = u_name user_row,
                     us_user_id = u_user_id user_row,
                     us_total_invested = total_invested,
                     us_current_value_of_assets = current_value_of_assets,
                     us_total_cash = total_cash,
                     us_platforms = platforms,
                     us_profit_loss_amount = profit_loss_amount,
                     us_profit_loss_percent = profit_loss_percent \<rparr>,
                  concat (map snd results))))"

text \<open>
  \<^verbatim>\<open>for user_row in users\<close> over \<^verbatim>\<open>SELECT user_id, name FROM users ORDER BY name\<close>:
  \<^verbatim>\<open>breakdown_data\<close> and \<^verbatim>\<open>all_accounts_performance_data\<close>.
\<close>

definition breakdown ::
  "db \<Rightarrow> asset_detail list \<Rightarrow> py_error + (user_summary list \<times> account_performance list)" where
  "breakdown d all_assets_detailed =
     ebind (emap (summarise_user d all_assets_detailed) (sort_key u_name (db_users d)))
       (\<lambda>results. Inr (map fst results, concat (map snd results)))"

section \<open>The dashboard: allocation charts and the account ranking\<close>

text \<open>
  Chart data is a list of two-element lists: a header row, then one data row per group.
\<close>

datatype chart_row = Header string string | Data string rat

text \<open>\<^verbatim>\<open>rows if len(rows) > 1 else []\<close>.\<close>

definition chart_or_empty :: "chart_row list \<Rightarrow> chart_row list" where
  "chart_or_empty rows = (if length rows > 1 then rows else [])"

text \<open>
  \<^verbatim>\<open>account_type_values\<close> is a dictionary, which keeps its keys in insertion order:
  \<^verbatim>\<open>if k not in m: m[k] = 0.0\<close> followed by \<^verbatim>\<open>m[k] += v\<close>.
\<close>

fun dict_add :: "string \<Rightarrow> rat \<Rightarrow> (string \<times> rat) list \<Rightarrow> (string \<times> rat) list" where
  "dict_add k v [] = [(k, 0 + v)]"
| "dict_add k v ((k', w) # kvs) =
     (if k = k' then (k', w + v) # kvs else (k', w) # dict_add k v kvs)"

definition all_account_summaries :: "user_summary list \<Rightarrow> account_summary list" where
  "all_account_summaries breakdown_data =
     concat (map ps_accounts (concat (map us_platforms breakdown_data)))"

definition account_total_value :: "account_summary \<Rightarrow> rat" where
  "account_total_value account_summary =
     or_zero (Some (as_current_value_of_assets account_summary))
       + or_zero (Some (as_cash_balance account_summary))"

definition account_type_values :: "user_summary list \<Rightarrow> (string \<times> rat) list" where
  "account_type_values breakdown_data =
     foldl (\<lambda>m account_summary.
              dict_add (as_account_type account_summary)
                (account_total_value account_summary) m)
       [] (all_account_summaries breakdown_data)"

definition account_type_allocation_data_for_chart :: "user_summary list \<Rightarrow> chart_row list" where
  "account_type_allocation_data_for_chart breakdown_data =
     chart_or_empty
       (Header ''Account Type'' ''Total Value''
          # [Data acc_type total_value.
               (acc_type, total_value) \<leftarrow> account_type_values breakdown_data,
               total_value > 0])"

definition user_portfolio_value :: "user_summary \<Rightarrow> rat" where
  "user_portfolio_value user_summary =
     or_zero (Some (us_current_value_of_assets user_summary))
       + or_zero (Some (us_total_cash user_summary))"

definition user_allocation_data_for_chart :: "user_summary list \<Rightarrow> chart_row list" where
  "user_allocation_data_for_chart breakdown_data =
     chart_or_empty
       (Header ''User'' ''Total Portfolio Value''
          # [Data (us_user_name user_summary) (user_portfolio_value user_summary).
               user_summary \<leftarrow> breakdown_data, user_portfolio_value user_summary > 0])"

definition individual_account_allocation_data_for_chart ::
  "account_performance list \<Rightarrow> chart_row list" where
  "individual_account_allocation_data_for_chart all_accounts_performance_data =
     chart_or_empty
       (Header ''Account'' ''Total Value''
          # [Data (ap_display_name acc_perf_data) (ap_total_value acc_perf_data).
               acc_perf_data \<leftarrow> all_accounts_performance_data,
               ap_total_value acc_perf_data > 0])"

text \<open>
  \<^verbatim>\<open>ranked_accounts\<close>; as for assets, the \<^verbatim>\<open>is not None\<close> test always holds.
\<close>

definition ranked_accounts :: "account_performance list \<Rightarrow> account_performance list" where
  "ranked_accounts all_accounts_performance_data =
     sorted_reverse ap_profit_loss_percent
       (filter (\<lambda>acc. ap_total_invested acc > 0) all_accounts_performance_data)"

section \<open>The dashboard view\<close>

text \<open>
  \<^verbatim>\<open>dashboard_global_data\<close>, without the two application settings (goal and exchange
  rate), which are read from a table that is not modelled.
\<close>

record dashboard_global_data =
  g_total_invested_assets :: rat
  g_total_invested_assets_plus_cash :: rat
  g_current_value_of_assets :: rat
  g_profit_loss_amount :: rat
  g_profit_loss_percent :: rat
  g_total_cash :: rat
  g_overall_portfolio_value :: rat
  g_best_performing_asset :: "asset_detail option"
  g_worst_performing_asset :: "asset_detail option"
  g_all_assets_ranked :: "asset_detail list"
  g_portfolio_history_for_chart :: history
  g_account_type_allocation_data_for_chart :: "chart_row list"
  g_user_allocation_data_for_chart :: "chart_row list"
  g_individual_account_allocation_data_for_chart :: "chart_row list"
  g_all_accounts_ranked_by_performance :: "account_performance list"

record dashboard =
  global_data :: dashboard_global_data
  breakdown_data :: "user_summary list"
  store :: db

text \<open>
  A \<^verbatim>\<open>GET\<close> of \<^verbatim>\<open>index\<close>, with the market-data gateway's yearly history and today's
  date as parameters. The result is what the template receives, and the store after the
  request. Failures of the store itself are outside the model.
\<close>

definition index :: "(string \<Rightarrow> chart_data) \<Rightarrow> string \<Rightarrow> db \<Rightarrow> py_error + dashboard" where
  "index fetch_yearly_historical_data today_str d =
     ebind (emap asset_detail_of (assets_query_for_dashboard d))
       (\<lambda>details.
         let global_total_invested_assets = accumulate ad_total_invested details;
             global_current_value_of_assets = accumulate ad_current_value details;
             rk = rank_and_chart fetch_yearly_historical_data details;
             global_total_cash =
               (case sql_sum (map acc_cash_balance (db_accounts d)) of
                  None \<Rightarrow> 0 | Some total_cash \<Rightarrow> total_cash);
             total_invested_assets_plus_cash =
               global_total_invested_assets + global_total_cash;
             global_profit_loss_amount =
               global_current_value_of_assets - global_total_invested_assets
         in ebind (guarded_percent global_profit_loss_amount global_total_invested_assets)
           (\<lambda>global_profit_loss_percent.
             let overall_portfolio_value =
                   global_current_value_of_assets + global_total_cash;
                 d' = d\<lparr> db_portfolio_history :=
                          record_snapshot today_str overall_portfolio_value
                            (db_portfolio_history d) \<rparr>
             in ebind (breakdown d' (rk_all_assets_detailed rk))
               (\<lambda>(users, all_accounts_performance_data).
                 Inr \<lparr> global_data =
                         \<lparr> g_total_invested_assets = global_total_invested_assets,
                           g_total_invested_assets_plus_cash =
                             total_invested_assets_plus_cash,
                           g_current_value_of_assets = global_current_value_of_assets,
                           g_profit_loss_amount = global_profit_loss_amount,
                           g_profit_loss_percent = global_profit_loss_percent,
                           g_total_cash = global_total_cash,
                           g_overall_portfolio_value = overall_portfolio_value,
                           g_best_performing_asset = rk_best_performing_asset rk,
                           g_worst_performing_asset = rk_worst_performing_asset rk,
                           g_all_assets_ranked = rk_all_assets_ranked rk,
                           g_portfolio_history_for_chart =
                             sort_key fst (db_portfolio_history d'),
                           g_account_type_allocation_data_for_chart =
                             account_type_allocation_data_for_chart users,
                           g_user_allocation_data_for_chart =
                             user_allocation_data_for_chart users,
                           g_individual_account_allocation_data_for_chart =
                             individual_account_allocation_data_for_chart
                               all_accounts_performance_data,
                           g_all_accounts_ranked_by_performance =
                             ranked_accounts all_accounts_performance_data \<rparr>,
                       breakdown_data = users,
                       store = d' \<rparr>)))"

section \<open>The market-data gateway and the refresh of one asset\<close>

text \<open>
  What the quote provider hands back is untyped: a value of its \<^verbatim>\<open>info\<close> dictionary may
  be \<^verbatim>\<open>None\<close>, a number or something else (a string). The closing prices of the five-day
  history are numbers. A ticker for which any provider call raises has no data.
\<close>

datatype py_value = PyNone | PyNum rat | PyStr string

record ticker_data =
  td_info :: "string \<Rightarrow> py_value option"
  td_hist_close :: "rat list"

type_synonym gateway = "string \<Rightarrow> ticker_data option"

text \<open>\<^verbatim>\<open>info.get(key, default)\<close>; \<^verbatim>\<open>info.get(key)\<close> has the default \<^verbatim>\<open>None\<close>.\<close>

definition info_get :: "(string \<Rightarrow> py_value option) \<Rightarrow> string \<Rightarrow> py_value \<Rightarrow> py_value" where
  "info_get info key fallback = (case info key of None \<Rightarrow> fallback | Some v \<Rightarrow> v)"

fun truthy :: "py_value \<Rightarrow> bool" where
  "truthy PyNone = False"
| "truthy (PyNum x) = (x \<noteq> 0)"
| "truthy (PyStr s) = (s \<noteq> [])"

text \<open>
  The loop over the four price keys: a value that is neither \<^verbatim>\<open>None\<close> nor an
  \<^verbatim>\<open>int\<close>/\<^verbatim>\<open>float\<close> is replaced by \<^verbatim>\<open>None\<close>.
\<close>

fun numeric_or_none :: "py_value \<Rightarrow> rat option" where
  "numeric_or_none (PyNum x) = Some x"
| "numeric_or_none PyNone = None"
| "numeric_or_none (PyStr s) = None"

text \<open>A name is stored as text; a provider name that is not a string is outside the model.\<close>

fun text_or_none :: "py_value \<Rightarrow> string option" where
  "text_or_none (PyStr s) = Some s"
| "text_or_none _ = None"

record market_data =
  md_current_price :: "rat option"
  md_price_yesterday :: "rat option"
  md_fifty_two_week_high :: "rat option"
  md_fifty_two_week_low :: "rat option"
  md_name :: py_value

definition fetch_market_data :: "gateway \<Rightarrow> string \<Rightarrow> market_data option" where
  "fetch_market_data yf ticker_symbol =
     (case yf ticker_symbol of
        None \<Rightarrow> None
      | Some ticker \<Rightarrow>
          let info = td_info ticker;
              hist = td_hist_close ticker;
              current_price =
                (if hist \<noteq> [] then PyNum (last hist)
                 else info_get info ''currentPrice''
                        (info_get info ''regularMarketPreviousClose''
                           (info_get info ''bid'' (info_get info ''ask'' PyNone))));
              price_yesterday =
                (if length hist \<ge> 2 then PyNum (hist ! (length hist - 2))
                 else info_get info ''previousClose''
                        (info_get info ''regularMarketPreviousClose'' PyNone))
          in Some \<lparr> md_current_price = numeric_or_none current_price,
                     md_price_yesterday = numeric_or_none price_yesterday,
                     md_fifty_two_week_high =
                       numeric_or_none (info_get info ''fiftyTwoWeekHigh'' PyNone),
                     md_fifty_two_week_low =
                       numeric_or_none (info_get info ''fiftyTwoWeekLow'' PyNone),
                     md_name =
                       (if truthy (info_get info ''shortName'' PyNone)
                        then info_get info ''shortName'' PyNone
                        else info_get info ''longName'' PyNone) \<rparr>)"

datatype flash_category = Success | Information | Warning | Failure

datatype refresh_message = AssetNotFound | RefreshedSuccessfully | CouldNotFetch

fun refresh_category :: "refresh_message \<Rightarrow> flash_category" where
  "refresh_category AssetNotFound = Failure"
| "refresh_category RefreshedSuccessfully = Success"
| "refresh_category CouldNotFetch = Warning"

text \<open>The \<^verbatim>\<open>UPDATE assets SET ... WHERE asset_id = ?\<close> of the refresh.\<close>

definition update_market_columns :: "int \<Rightarrow> market_data \<Rightarrow> string option \<Rightarrow> asset list \<Rightarrow> asset list"
  where
  "update_market_columns asset_id md name_to_update assets =
     map (\<lambda>a. if ast_asset_id a = asset_id
               then a\<lparr> ast_current_price := md_current_price md,
                        ast_price_yesterday := md_price_yesterday md,
                        ast_fifty_two_week_high := md_fifty_two_week_high md,
                        ast_fifty_two_week_low := md_fifty_two_week_low md,
                        ast_name := name_to_update \<rparr>
               else a) assets"

text \<open>
  \<^verbatim>\<open>refresh_asset_data\<close>: the flashed message and the store after the request. The fetched
  dictionary always has its five keys, so \<^verbatim>\<open>if market_data\<close> tests for \<^verbatim>\<open>None\<close> only.
\<close>

definition refresh_asset_data :: "gateway \<Rightarrow> int \<Rightarrow> db \<Rightarrow> refresh_message \<times> db" where
  "refresh_asset_data yf asset_id d =
     (case asset_by_id (db_assets d) asset_id of
        None \<Rightarrow> (AssetNotFound, d)
      | Some asset \<Rightarrow>
         (case fetch_market_data yf (ast_ticker_symbol asset) of
            Some md \<Rightarrow>
              let name_to_update =
                    (if truthy (md_name md)
                        \<and> (ast_name asset = None \<or> ast_name asset = Some [])
                     then text_or_none (md_name md) else ast_name asset)
              in (RefreshedSuccessfully,
                  d\<lparr> db_assets :=
                       update_market_columns asset_id md name_to_update (db_assets d) \<rparr>)
          | None \<Rightarrow> (CouldNotFetch, d)))"

section \<open>Example stores\<close>

text \<open>
  Two small stores on which the results below are evaluated. In the first, two assets
  tie on their profit/loss percent, one asset has no cost basis and no price, one account
  has no cash balance and one user holds nothing. In the second, the only asset has a
  value but no cost basis.
\<close>

definition example_store :: db where
  "example_store =
     \<lparr> db_users = [\<lparr> u_user_id = 2, u_name = ''Bob'' \<rparr>,
                   \<lparr> u_user_id = 1, u_name = ''Ann'' \<rparr>],
       db_platforms = [\<lparr> p_platform_id = 1, p_name = ''Broker'' \<rparr>],
       db_accounts =
         [\<lparr> acc_account_id = 1, acc_user_id = 1, acc_platform_id = 1,
            acc_account_type = ''TFSA'', acc_account_name = ''Main'',
            acc_cash_balance = Some 50 \<rparr>,
          \<lparr> acc_account_id = 2, acc_user_id = 1, acc_platform_id = 1,
            acc_account_type = ''RRSP'', acc_account_name = ''Side'',
            acc_cash_balance = None \<rparr>,
          \<lparr> acc_account_id = 3, acc_user_id = 2, acc_platform_id = 1,
            acc_account_type = ''TFSA'', acc_account_name = ''Spare'',
            acc_cash_balance = Some 0 \<rparr>],
       db_assets =
         [\<lparr> ast_asset_id = 1, ast_account_id = 1, ast_ticker_symbol = ''AAA'',
          ast_name = None, ast_quantity = Some 10, ast_average_cost = Some 100,
          ast_total_invested = Some 1000, ast_current_price = Some 150,
          ast_price_yesterday = Some 120, ast_fifty_two_week_high = Some 200,
          ast_fifty_two_week_low = Some 90 \<rparr>,
          \<lparr> ast_asset_id = 2, ast_account_id = 1, ast_ticker_symbol = ''BBB'',
          ast_name = None, ast_quantity = Some 4, ast_average_cost = Some 0,
          ast_total_invested = Some 0, ast_current_price = None,
          ast_price_yesterday = None, ast_fifty_two_week_high = None,
          ast_fifty_two_week_low = None \<rparr>,
          \<lparr> ast_asset_id = 3, ast_account_id = 2, ast_ticker_symbol = ''CCC'',
          ast_name = None, ast_quantity = Some 2, ast_average_cost = Some 200,
          ast_total_invested = Some 400, ast_current_price = Some 100,
          ast_price_yesterday = Some 100, ast_fifty_two_week_high = Some 0,
          ast_fifty_two_week_low = None \<rparr>,
          \<lparr> ast_asset_id = 4, ast_account_id = 1, ast_ticker_symbol = ''DDD'',
          ast_name = None, ast_quantity = Some 5, ast_average_cost = Some 100,
          ast_total_invested = Some 500, ast_current_price = Some 150,
          ast_price_yesterday = None, ast_fifty_two_week_high = Some 150,
          ast_fifty_two_week_low = None \<rparr>],
       db_portfolio_history = [(''2024-01-01'', 2000)] \<rparr>"

definition zero_cost_store :: db where
  "zero_cost_store =
     \<lparr> db_users = [\<lparr> u_user_id = 1, u_name = ''Ann'' \<rparr>],
       db_platforms = [\<lparr> p_platform_id = 1, p_name = ''Broker'' \<rparr>],
       db_accounts =
         [\<lparr> acc_account_id = 1, acc_user_id = 1, acc_platform_id = 1,
            acc_account_type = ''TFSA'', acc_account_name = ''Main'',
            acc_cash_balance = Some 0 \<rparr>],
       db_assets =
         [\<lparr> ast_asset_id = 1, ast_account_id = 1, ast_ticker_symbol = ''ZZZ'',
          ast_name = None, ast_quantity = Some 4, ast_average_cost = Some 0,
          ast_total_invested = Some 0, ast_current_price = Some 10,
          ast_price_yesterday = Some 10, ast_fifty_two_week_high = Some 10,
          ast_fifty_two_week_low = Some 10 \<rparr>],
       db_portfolio_history = [] \<rparr>"

text \<open>
  Three gateways for the examples: one whose calls fail, one that answers with text where
  numbers are expected, and one that answers with a two-day history and numeric 52-week
  figures.
\<close>

definition failing_gateway :: gateway where
  "failing_gateway = (\<lambda>ticker_symbol. None)"

definition non_numeric_gateway :: gateway where
  "non_numeric_gateway =
     (\<lambda>ticker_symbol.
        Some \<lparr> td_info = [''currentPrice'' \<mapsto> PyStr ''N/A'',
                           ''fiftyTwoWeekHigh'' \<mapsto> PyStr ''N/A''],
               td_hist_close = [] \<rparr>)"

definition numeric_gateway :: gateway where
  "numeric_gateway =
     (\<lambda>ticker_symbol.
        Some \<lparr> td_info = [''fiftyTwoWeekHigh'' \<mapsto> PyNum 15, ''fiftyTwoWeekLow'' \<mapsto> PyNum 5,
                           ''shortName'' \<mapsto> PyStr ''Zed''],
               td_hist_close = [11, 12] \<rparr>)"

section \<open>Basic facts\<close>

lemma ebind_Inr [simp]: "ebind (Inr v) f = f v"
  by (simp add: ebind_def)

lemma ebind_Inl [simp]: "ebind (Inl e) f = Inl e"
  by (simp add: ebind_def)

lemma guarded_percent_eq:
  "guarded_percent pl ti = Inr (if ti > 0 then pl / ti * 100 else 0)"
  by (simp add: guarded_percent_def py_div_def)

lemma or_zero_simps [simp]:
  "or_zero None = 0" "or_zero (Some v) = v"
  by (simp_all add: or_zero_def)

section \<open>Sell simulation: results\<close>



section \<open>Buy simulation: results\<close>









section \<open>Totality of the derivation and the accumulator loops\<close>

lemma day_change_percent_eq:
  "day_change_percent cp py =
     Inr (case cp of None \<Rightarrow> 0
          | Some c \<Rightarrow> (case py of None \<Rightarrow> 0
                       | Some y \<Rightarrow> if y > 0 then (c - y) / y * 100 else 0))"
  by (simp add: day_change_percent_def py_div_def split: option.splits)

lemma percent_to_52_week_high_eq:
  "percent_to_52_week_high cp hi =
     Inr (case cp of None \<Rightarrow> None
          | Some c \<Rightarrow> (case hi of None \<Rightarrow> None
                       | Some h \<Rightarrow> if h > 0 then Some ((c - h) / h * 100) else None))"
  by (simp add: percent_to_52_week_high_def py_div_def split: option.splits)

lemma derive_asset_metrics_eq:
  "derive_asset_metrics a =
     Inr \<lparr> m_total_invested = or_zero (ast_total_invested a),
           m_quantity = or_zero (ast_quantity a),
           m_current_value =
             (case ast_current_price a of None \<Rightarrow> 0
              | Some cp \<Rightarrow> or_zero (ast_quantity a) * cp),
           m_profit_loss_dollars =
             (case ast_current_price a of None \<Rightarrow> 0
              | Some cp \<Rightarrow> or_zero (ast_quantity a) * cp) - or_zero (ast_total_invested a),
           m_profit_loss_percent =
             (if or_zero (ast_total_invested a) > 0
              then ((case ast_current_price a of None \<Rightarrow> 0
                     | Some cp \<Rightarrow> or_zero (ast_quantity a) * cp)
                    - or_zero (ast_total_invested a)) / or_zero (ast_total_invested a) * 100
              else 0),
           m_day_change_percent =
             (case ast_current_price a of None \<Rightarrow> 0
              | Some c \<Rightarrow> (case ast_price_yesterday a of None \<Rightarrow> 0
                           | Some y \<Rightarrow> if y > 0 then (c - y) / y * 100 else 0)),
           m_percent_to_52_week_high =
             (case ast_current_price a of None \<Rightarrow> None
              | Some c \<Rightarrow> (case ast_fifty_two_week_high a of None \<Rightarrow> None
                           | Some h \<Rightarrow> if h > 0 then Some ((c - h) / h * 100) else None)) \<rparr>"
  unfolding derive_asset_metrics_def Let_def guarded_percent_eq day_change_percent_eq
    percent_to_52_week_high_eq ebind_Inr
  by (rule refl)

lemma emap_Inr:
  "(\<And>x. x \<in> set xs \<Longrightarrow> \<exists>y. f x = Inr y) \<Longrightarrow> emap f xs = Inr (map (\<lambda>x. projr (f x)) xs)"
proof (induction xs)
  case Nil
  show ?case by simp
next
  case (Cons x xs)
  from Cons.prems obtain y where y: "f x = Inr y" by auto
  have "emap f xs = Inr (map (\<lambda>x. projr (f x)) xs)"
    using Cons by simp
  with y show ?case by simp
qed

lemma foldl_add_shift:
  "foldl (\<lambda>total x. total + f x) (a::rat) xs = a + sum_list (map f xs)"
  by (induction xs arbitrary: a) (simp_all add: add.assoc)

lemma accumulate_eq: "accumulate f xs = sum_list (map f xs)"
  by (simp add: accumulate_def foldl_add_shift)


section \<open>Ranking: sorting facts\<close>

lemma attach_chart_length [simp]: "length (attach_chart y i ds) = length ds"
  by (simp add: attach_chart_def)

lemma attach_chart_row [simp]: "map ad_row (attach_chart y i ds) = map ad_row ds"
  by (cases "i < length ds")
    (simp_all add: attach_chart_def map_update list_update_same_conv list_update_beyond)

lemma attach_chart_metrics [simp]: "map ad_metrics (attach_chart y i ds) = map ad_metrics ds"
  by (cases "i < length ds")
    (simp_all add: attach_chart_def map_update list_update_same_conv list_update_beyond)

lemma rank_and_chart_length [simp]:
  "length (rk_all_assets_detailed (rank_and_chart y ds)) = length ds"
  by (simp add: rank_and_chart_def Let_def)

lemma rank_and_chart_row [simp]:
  "map ad_row (rk_all_assets_detailed (rank_and_chart y ds)) = map ad_row ds"
  by (simp add: rank_and_chart_def Let_def)

lemma rank_and_chart_metrics [simp]:
  "map ad_metrics (rk_all_assets_detailed (rank_and_chart y ds)) = map ad_metrics ds"
  by (simp add: rank_and_chart_def Let_def)

lemma sorted_reverse_mset [simp]: "mset (sorted_reverse k xs) = mset xs"
  by (simp add: sorted_reverse_def)

lemma sorted_reverse_set [simp]: "set (sorted_reverse k xs) = set xs"
  by (simp add: sorted_reverse_def)

lemma sorted_reverse_length [simp]: "length (sorted_reverse k xs) = length xs"
  by (simp add: sorted_reverse_def)

lemma sorted_reverse_descending: "sorted_wrt (\<lambda>a b. k a \<ge> k b) (sorted_reverse k xs)"
proof -
  have "sorted (map k (sort_key k (rev xs)))" by simp
  then have "sorted_wrt (\<lambda>a b. k a \<le> k b) (sort_key k (rev xs))"
    by (simp add: sorted_wrt_map)
  then show ?thesis
    by (simp add: sorted_reverse_def sorted_wrt_rev)
qed

lemma sorted_reverse_stable:
  "filter (\<lambda>x. k x = c) (sorted_reverse k xs) = filter (\<lambda>x. k x = c) xs"
proof -
  have "filter (\<lambda>x. k x = c) (sort_key k (rev xs)) = filter (\<lambda>x. k x = c) (rev xs)"
    by (rule sort_key_stable)
  then show ?thesis
    by (simp add: sorted_reverse_def rev_filter [symmetric])
qed

lemma sort_key_map: "sort_key k (map g xs) = map g (sort_key (\<lambda>x. k (g x)) xs)"
proof (induction xs)
  case Nil
  show ?case by simp
next
  case (Cons x xs)
  have ins: "insort_key k (g x) (map g ys) = map g (insort_key (\<lambda>x. k (g x)) x ys)" for ys
    by (induction ys) simp_all
  show ?case by (simp add: Cons ins)
qed

lemma sorted_reverse_map: "sorted_reverse k (map g xs) = map g (sorted_reverse (\<lambda>x. k (g x)) xs)"
  by (simp add: sorted_reverse_def rev_map sort_key_map)

lemma filter_positions: "map (\<lambda>i. xs ! i) (filter (\<lambda>i. P (xs ! i)) [0..<length xs]) = filter P xs"
proof -
  have "filter P (map (\<lambda>i. xs ! i) [0..<length xs]) = filter P xs"
    by (simp add: map_nth)
  then show ?thesis by (simp add: filter_map comp_def)
qed

lemma rank_assets_values:
  "map (\<lambda>i. ds ! i) (rank_assets ds) =
     sorted_reverse ad_profit_loss_percent (filter (\<lambda>a. ad_total_invested a > 0) ds)"
proof -
  have "map (\<lambda>i. ds ! i) (rank_assets ds) =
          sorted_reverse ad_profit_loss_percent
            (map (\<lambda>i. ds ! i) (filter (\<lambda>i. ad_total_invested (ds ! i) > 0) [0..<length ds]))"
    unfolding rank_assets_def
    by (rule sorted_reverse_map [symmetric])
  then show ?thesis
    using filter_positions [of ds "\<lambda>a. ad_total_invested a > 0"] by simp
qed

lemma rank_assets_bound: "i \<in> set (rank_assets ds) \<Longrightarrow> i < length ds"
  by (simp add: rank_assets_def)

lemma nth_map_positions:
  assumes "map f ds' = map f ds" and "\<And>i. i \<in> set idx \<Longrightarrow> i < length ds"
  shows "map f (map (\<lambda>i. ds' ! i) idx) = map f (map (\<lambda>i. ds ! i) idx)"
proof -
  have len: "length ds' = length ds"
    using assms(1) by (metis length_map)
  have "f (ds' ! i) = f (ds ! i)" if "i \<in> set idx" for i
  proof -
    from that have "i < length ds" by (rule assms(2))
    then have "map f ds' ! i = f (ds' ! i)" "map f ds ! i = f (ds ! i)"
      using len by simp_all
    then show ?thesis using assms(1) by simp
  qed
  then show ?thesis by simp
qed

lemma rank_and_chart_ranked_proj:
  assumes "\<And>ds' :: asset_detail list. 
             map ad_row ds' = map ad_row ds \<Longrightarrow> map ad_metrics ds' = map ad_metrics ds \<Longrightarrow> map f ds' = map f ds"
  shows "map f (rk_all_assets_ranked (rank_and_chart y ds)) =
         map f (sorted_reverse ad_profit_loss_percent (filter (\<lambda>a. ad_total_invested a > 0) ds))"
proof (cases "rank_assets ds = []")
  case True
  then have "map (\<lambda>i. ds ! i) (rank_assets ds) = []" by simp
  then have "sorted_reverse ad_profit_loss_percent (filter (\<lambda>a. ad_total_invested a > 0) ds) = []"
    by (simp only: rank_assets_values)
  with True show ?thesis by (simp add: rank_and_chart_def)
next
  case False
  define ds' where "ds' = attach_chart y (last (rank_assets ds)) (attach_chart y (hd (rank_assets ds)) ds)"
  have "map f ds' = map f ds"
    by (rule assms) (simp_all add: ds'_def)
  then have "map f (map (\<lambda>i. ds' ! i) (rank_assets ds)) = map f (map (\<lambda>i. ds ! i) (rank_assets ds))"
    by (rule nth_map_positions) (rule rank_assets_bound)
  moreover have "rk_all_assets_ranked (rank_and_chart y ds) = map (\<lambda>i. ds' ! i) (rank_assets ds)"
    using False by (simp add: rank_and_chart_def Let_def ds'_def)
  ultimately show ?thesis by (simp only: rank_assets_values)
qed

lemma rank_and_chart_ranked_row:
  "map ad_row (rk_all_assets_ranked (rank_and_chart y ds)) =
   map ad_row (sorted_reverse ad_profit_loss_percent (filter (\<lambda>a. ad_total_invested a > 0) ds))"
  by (rule rank_and_chart_ranked_proj)

lemma rank_and_chart_ranked_metrics:
  "map ad_metrics (rk_all_assets_ranked (rank_and_chart y ds)) =
   map ad_metrics (sorted_reverse ad_profit_loss_percent (filter (\<lambda>a. ad_total_invested a > 0) ds))"
  by (rule rank_and_chart_ranked_proj)

lemma rank_and_chart_best:
  "rk_best_performing_asset (rank_and_chart y ds) =
     (if rk_all_assets_ranked (rank_and_chart y ds) = [] then None
      else Some (hd (rk_all_assets_ranked (rank_and_chart y ds))))"
  by (simp add: rank_and_chart_def Let_def hd_map)

lemma rank_and_chart_worst:
  "rk_worst_performing_asset (rank_and_chart y ds) =
     (if rk_all_assets_ranked (rank_and_chart y ds) = [] then None
      else Some (last (rk_all_assets_ranked (rank_and_chart y ds))))"
  by (simp add: rank_and_chart_def Let_def last_map)

section \<open>Closed forms of the summaries and of the dashboard\<close>

lemma asset_detail_of_eq:
  "asset_detail_of row =
     Inr \<lparr> ad_row = row, ad_metrics = projr (derive_asset_metrics (r_asset row)),
           ad_yearly_chart_data = None \<rparr>"
  by (simp add: asset_detail_of_def derive_asset_metrics_eq)

lemma summarise_account_eq:
  "summarise_account ds acc =
     Inr \<lparr> as_account_id = acc_account_id acc,
           as_account_name = acc_account_name acc,
           as_account_type = acc_account_type acc,
           as_cash_balance = or_zero (acc_cash_balance acc),
           as_total_invested =
             sum_list (map ad_total_invested
               (filter (\<lambda>a. r_account_id (ad_row a) = acc_account_id acc) ds)),
           as_current_value_of_assets =
             sum_list (map ad_current_value
               (filter (\<lambda>a. r_account_id (ad_row a) = acc_account_id acc) ds)),
           as_assets = filter (\<lambda>a. r_account_id (ad_row a) = acc_account_id acc) ds,
           as_profit_loss_amount =
             sum_list (map ad_current_value
               (filter (\<lambda>a. r_account_id (ad_row a) = acc_account_id acc) ds))
             - sum_list (map ad_total_invested
               (filter (\<lambda>a. r_account_id (ad_row a) = acc_account_id acc) ds)),
           as_profit_loss_percent =
             (if sum_list (map ad_total_invested
                   (filter (\<lambda>a. r_account_id (ad_row a) = acc_account_id acc) ds)) > 0
              then (sum_list (map ad_current_value
                     (filter (\<lambda>a. r_account_id (ad_row a) = acc_account_id acc) ds))
                    - sum_list (map ad_total_invested
                     (filter (\<lambda>a. r_account_id (ad_row a) = acc_account_id acc) ds)))
                   / sum_list (map ad_total_invested
                     (filter (\<lambda>a. r_account_id (ad_row a) = acc_account_id acc) ds)) * 100
              else 0) \<rparr>"
  unfolding summarise_account_def Let_def guarded_percent_eq ebind_Inr accumulate_eq
  by (rule refl)

lemma summarise_account_facts:
  assumes "summarise_account ds acc = Inr s"
  shows "as_assets s = filter (\<lambda>a. r_account_id (ad_row a) = as_account_id s) ds"
    and "as_account_id s = acc_account_id acc"
    and "as_account_type s = acc_account_type acc"
    and "as_cash_balance s = or_zero (acc_cash_balance acc)"
    and "as_total_invested s = sum_list (map ad_total_invested (as_assets s))"
    and "as_current_value_of_assets s = sum_list (map ad_current_value (as_assets s))"
    and "as_profit_loss_amount s = as_current_value_of_assets s - as_total_invested s"
    and "as_profit_loss_percent s =
           (if as_total_invested s > 0
            then as_profit_loss_amount s / as_total_invested s * 100 else 0)"
  using assms unfolding summarise_account_eq by auto

lemma summarise_account_total: "\<exists>s. summarise_account ds acc = Inr s"
  unfolding summarise_account_eq by blast

lemma summarise_platform_eq:
  fixes d ds user_row platform_row
  defines "accounts \<equiv> map (\<lambda>a. projr (summarise_account ds a))
             (accounts_on_platform d (u_user_id user_row) (p_platform_id platform_row))"
  shows "summarise_platform d ds user_row platform_row =
     Inr (\<lparr> ps_platform_name = p_name platform_row,
             ps_total_invested = sum_list (map as_total_invested accounts),
             ps_current_value_of_assets = sum_list (map as_current_value_of_assets accounts),
             ps_total_cash = sum_list (map as_cash_balance accounts),
             ps_accounts = accounts,
             ps_profit_loss_amount =
               sum_list (map as_current_value_of_assets accounts)
                 - sum_list (map as_total_invested accounts),
             ps_profit_loss_percent =
               (if sum_list (map as_total_invested accounts) > 0
                then (sum_list (map as_current_value_of_assets accounts)
                        - sum_list (map as_total_invested accounts))
                     / sum_list (map as_total_invested accounts) * 100
                else 0) \<rparr>,
          map (account_performance_of user_row platform_row) accounts)"
proof -
  have "emap (summarise_account ds)
          (accounts_on_platform d (u_user_id user_row) (p_platform_id platform_row))
        = Inr accounts"
    unfolding accounts_def by (rule emap_Inr) (rule summarise_account_total)
  then show ?thesis
    unfolding summarise_platform_def Let_def guarded_percent_eq accumulate_eq
    by (simp only: ebind_Inr)
qed

lemma summarise_platform_total: "\<exists>r. summarise_platform d ds u p = Inr r"
  unfolding summarise_platform_eq by blast

lemma summarise_platform_facts:
  assumes "summarise_platform d ds u p = Inr (ps, perfs)"
  shows "ps_accounts ps = map (\<lambda>a. projr (summarise_account ds a))
             (accounts_on_platform d (u_user_id u) (p_platform_id p))"
    and "ps_platform_name ps = p_name p"
    and "ps_total_invested ps = sum_list (map as_total_invested (ps_accounts ps))"
    and "ps_current_value_of_assets ps =
           sum_list (map as_current_value_of_assets (ps_accounts ps))"
    and "ps_total_cash ps = sum_list (map as_cash_balance (ps_accounts ps))"
    and "ps_profit_loss_amount ps = ps_current_value_of_assets ps - ps_total_invested ps"
    and "ps_profit_loss_percent ps =
           (if ps_total_invested ps > 0
            then ps_profit_loss_amount ps / ps_total_invested ps * 100 else 0)"
    and "perfs = map (account_performance_of u p) (ps_accounts ps)"
  using assms unfolding summarise_platform_eq by auto

lemma summarise_user_eq:
  fixes d ds user_row
  defines "results \<equiv> map (\<lambda>p. projr (summarise_platform d ds user_row p))
             (user_platforms d (u_user_id user_row))"
  shows "summarise_user d ds user_row =
     Inr (\<lparr> us_user_name = u_name user_row,
             us_user_id = u_user_id user_row,
             us_total_invested = sum_list (map ps_total_invested (map fst results)),
             us_current_value_of_assets =
               sum_list (map ps_current_value_of_assets (map fst results)),
             us_total_cash = sum_list (map ps_total_cash (map fst results)),
             us_platforms = map fst results,
             us_profit_loss_amount =
               sum_list (map ps_current_value_of_assets (map fst results))
                 - sum_list (map ps_total_invested (map fst results)),
             us_profit_loss_percent =
               (if sum_list (map ps_total_invested (map fst results)) > 0
                then (sum_list (map ps_current_value_of_assets (map fst results))
                        - sum_list (map ps_total_invested (map fst results)))
                     / sum_list (map ps_total_invested (map fst results)) * 100
                else 0) \<rparr>,
          concat (map snd results))"
proof -
  have "emap (summarise_platform d ds user_row) (user_platforms d (u_user_id user_row))
        = Inr results"
    unfolding results_def by (rule emap_Inr) (rule summarise_platform_total)
  then show ?thesis
    unfolding summarise_user_def Let_def guarded_percent_eq accumulate_eq
    by (simp only: ebind_Inr)
qed

lemma summarise_user_total: "\<exists>r. summarise_user d ds u = Inr r"
  unfolding summarise_user_eq by blast

lemma summarise_user_facts:
  assumes "summarise_user d ds u = Inr (us, perfs)"
  shows "us_platforms us = map (\<lambda>p. fst (projr (summarise_platform d ds u p)))
             (user_platforms d (u_user_id u))"
    and "us_user_name us = u_name u"
    and "us_total_invested us = sum_list (map ps_total_invested (us_platforms us))"
    and "us_current_value_of_assets us =
           sum_list (map ps_current_value_of_assets (us_platforms us))"
    and "us_total_cash us = sum_list (map ps_total_cash (us_platforms us))"
    and "us_profit_loss_amount us = us_current_value_of_assets us - us_total_invested us"
    and "us_profit_loss_percent us =
           (if us_total_invested us > 0
            then us_profit_loss_amount us / us_total_invested us * 100 else 0)"
    and "perfs = concat (map (\<lambda>p. snd (projr (summarise_platform d ds u p)))
             (user_platforms d (u_user_id u)))"
  using assms unfolding summarise_user_eq by (auto simp: comp_def)

lemma breakdown_eq:
  "breakdown d ds =
     Inr (map (\<lambda>u. fst (projr (summarise_user d ds u))) (sort_key u_name (db_users d)),
          concat (map (\<lambda>u. snd (projr (summarise_user d ds u))) (sort_key u_name (db_users d))))"
proof -
  have "emap (summarise_user d ds) (sort_key u_name (db_users d))
        = Inr (map (\<lambda>u. projr (summarise_user d ds u)) (sort_key u_name (db_users d)))"
    by (rule emap_Inr) (rule summarise_user_total)
  then show ?thesis
    unfolding breakdown_def by (simp add: comp_def)
qed

lemma all_assets_detailed_eq:
  "emap asset_detail_of rows = Inr (map (\<lambda>r. projr (asset_detail_of r)) rows)"
  by (rule emap_Inr) (simp add: asset_detail_of_eq)

lemma index_eq:
  fixes y today d
  defines "details \<equiv> map (\<lambda>r. projr (asset_detail_of r)) (assets_query_for_dashboard d)"
  defines "rk \<equiv> rank_and_chart y details"
  defines "cash \<equiv> (case sql_sum (map acc_cash_balance (db_accounts d)) of
                      None \<Rightarrow> 0 | Some total_cash \<Rightarrow> total_cash)"
  defines "ti \<equiv> sum_list (map ad_total_invested details)"
  defines "cv \<equiv> sum_list (map ad_current_value details)"
  defines "d' \<equiv> d\<lparr> db_portfolio_history :=
                     record_snapshot today (cv + cash) (db_portfolio_history d) \<rparr>"
  defines "bd \<equiv> projr (breakdown d' (rk_all_assets_detailed rk))"
  shows "index y today d =
     Inr \<lparr> global_data =
             \<lparr> g_total_invested_assets = ti,
               g_total_invested_assets_plus_cash = ti + cash,
               g_current_value_of_assets = cv,
               g_profit_loss_amount = cv - ti,
               g_profit_loss_percent = (if ti > 0 then (cv - ti) / ti * 100 else 0),
               g_total_cash = cash,
               g_overall_portfolio_value = cv + cash,
               g_best_performing_asset = rk_best_performing_asset rk,
               g_worst_performing_asset = rk_worst_performing_asset rk,
               g_all_assets_ranked = rk_all_assets_ranked rk,
               g_portfolio_history_for_chart = sort_key fst (db_portfolio_history d'),
               g_account_type_allocation_data_for_chart =
                 account_type_allocation_data_for_chart (fst bd),
               g_user_allocation_data_for_chart = user_allocation_data_for_chart (fst bd),
               g_individual_account_allocation_data_for_chart =
                 individual_account_allocation_data_for_chart (snd bd),
               g_all_accounts_ranked_by_performance = ranked_accounts (snd bd) \<rparr>,
           breakdown_data = fst bd,
           store = d' \<rparr>"
proof -
  have 1: "emap asset_detail_of (assets_query_for_dashboard d) = Inr details"
    unfolding details_def by (rule all_assets_detailed_eq)
  have 2: "breakdown d' (rk_all_assets_detailed rk) = Inr bd"
    unfolding bd_def breakdown_eq by simp
  show ?thesis
    unfolding index_def 1 ebind_Inr Let_def guarded_percent_eq accumulate_eq
    unfolding rk_def [symmetric] cash_def [symmetric] ti_def [symmetric] cv_def [symmetric]
    unfolding d'_def [symmetric] 2 ebind_Inr
    by (simp add: case_prod_beta)
qed

lemma breakdown_user_mem:
  assumes "us \<in> set (fst (projr (breakdown d ds)))"
  shows "\<exists>u perfs. summarise_user d ds u = Inr (us, perfs)"
proof -
  from assms obtain u where us: "us = fst (projr (summarise_user d ds u))"
    unfolding breakdown_eq by auto
  obtain r where r: "summarise_user d ds u = Inr r"
    using summarise_user_total by blast
  with us have "summarise_user d ds u = Inr (us, snd r)" by simp
  then show ?thesis by blast
qed

lemma user_platform_mem:
  assumes "summarise_user d ds u = Inr (us, perfs)" and "ps \<in> set (us_platforms us)"
  shows "\<exists>p pf. summarise_platform d ds u p = Inr (ps, pf)"
proof -
  from assms obtain p where ps: "ps = fst (projr (summarise_platform d ds u p))"
    by (auto simp: summarise_user_facts(1))
  obtain r where r: "summarise_platform d ds u p = Inr r"
    using summarise_platform_total by blast
  with ps have "summarise_platform d ds u p = Inr (ps, snd r)" by simp
  then show ?thesis by blast
qed

lemma platform_account_mem:
  assumes "summarise_platform d ds u p = Inr (ps, pf)" and "s \<in> set (ps_accounts ps)"
  shows "\<exists>acc. summarise_account ds acc = Inr s"
proof -
  from assms obtain acc where s: "s = projr (summarise_account ds acc)"
    by (auto simp: summarise_platform_facts(1))
  obtain r where "summarise_account ds acc = Inr r"
    using summarise_account_total by blast
  with s show ?thesis by auto
qed

lemma derive_asset_metrics_guard:
  "m_total_invested (projr (derive_asset_metrics a)) \<le> 0
     \<Longrightarrow> m_profit_loss_percent (projr (derive_asset_metrics a)) = 0"
  by (simp add: derive_asset_metrics_eq)

lemma details_metrics_mem:
  assumes "map ad_metrics ds' = map ad_metrics (map (\<lambda>r. projr (asset_detail_of r)) rows)"
    and "a \<in> set ds'"
  shows "\<exists>a0. ad_metrics a = projr (derive_asset_metrics a0)"
proof -
  from assms(2) have "ad_metrics a \<in> set (map ad_metrics ds')" by simp
  then have "ad_metrics a \<in> set (map ad_metrics (map (\<lambda>r. projr (asset_detail_of r)) rows))"
    by (simp only: assms(1))
  then obtain r where "ad_metrics a = ad_metrics (projr (asset_detail_of r))"
    by auto
  then have "ad_metrics a = projr (derive_asset_metrics (r_asset r))"
    by (simp add: asset_detail_of_eq)
  then show ?thesis by (rule exI)
qed

section \<open>The dashboard: profit/loss percent never divides by zero\<close>

text \<open>
  C2. The dashboard computation returns for every store (no division error), and at every
  level of its result (global totals, user, platform, account, asset) an entity whose
  total_invested is not positive has profit_loss_percent 0. The same holds of the
  per-asset derivation and of the guarded percent expression on their own: the division
  is reached only under the guard \<open>total_invested > 0\<close>.
\<close>

theorem profit_loss_percent_guarded:
  "\<exists>v. index y today d = Inr v
     \<and> (g_total_invested_assets (global_data v) \<le> 0
          \<longrightarrow> g_profit_loss_percent (global_data v) = 0)
     \<and> (\<forall>us \<in> set (breakdown_data v).
          (us_total_invested us \<le> 0 \<longrightarrow> us_profit_loss_percent us = 0)
          \<and> (\<forall>ps \<in> set (us_platforms us).
               (ps_total_invested ps \<le> 0 \<longrightarrow> ps_profit_loss_percent ps = 0)
               \<and> (\<forall>s \<in> set (ps_accounts ps).
                    (as_total_invested s \<le> 0 \<longrightarrow> as_profit_loss_percent s = 0)
                    \<and> (\<forall>a \<in> set (as_assets s).
                         ad_total_invested a \<le> 0 \<longrightarrow> ad_profit_loss_percent a = 0))))
     \<and> (\<forall>a. \<exists>m. derive_asset_metrics a = Inr m
            \<and> (m_total_invested m \<le> 0 \<longrightarrow> m_profit_loss_percent m = 0))
     \<and> (\<forall>pl ti. \<exists>q. guarded_percent pl ti = Inr q \<and> (ti \<le> 0 \<longrightarrow> q = 0))"
proof -
  define details where
    "details = map (\<lambda>r. projr (asset_detail_of r)) (assets_query_for_dashboard d)"
  define ds' where "ds' = rk_all_assets_detailed (rank_and_chart y details)"
  obtain v where v: "index y today d = Inr v" using index_eq by blast
  obtain d' where bd: "breakdown_data v = fst (projr (breakdown d' ds'))"
    using v unfolding index_eq ds'_def details_def by auto
  have metrics: "map ad_metrics ds' = map ad_metrics details"
    by (simp add: ds'_def)
  have g: "g_total_invested_assets (global_data v) \<le> 0
            \<longrightarrow> g_profit_loss_percent (global_data v) = 0"
    using v unfolding index_eq by auto
  have asset: "ad_total_invested a \<le> 0 \<longrightarrow> ad_profit_loss_percent a = 0" if "a \<in> set ds'" for a
  proof -
    from details_metrics_mem [OF metrics [unfolded details_def] that]
    obtain a0 where "ad_metrics a = projr (derive_asset_metrics a0)" by blast
    then show ?thesis using derive_asset_metrics_guard [of a0] by simp
  qed
  have users: "(us_total_invested us \<le> 0 \<longrightarrow> us_profit_loss_percent us = 0)
          \<and> (\<forall>ps \<in> set (us_platforms us).
               (ps_total_invested ps \<le> 0 \<longrightarrow> ps_profit_loss_percent ps = 0)
               \<and> (\<forall>s \<in> set (ps_accounts ps).
                    (as_total_invested s \<le> 0 \<longrightarrow> as_profit_loss_percent s = 0)
                    \<and> (\<forall>a \<in> set (as_assets s).
                         ad_total_invested a \<le> 0 \<longrightarrow> ad_profit_loss_percent a = 0)))"
    if "us \<in> set (breakdown_data v)" for us
  proof -
    from that obtain u perfs where u: "summarise_user d' ds' u = Inr (us, perfs)"
      unfolding bd using breakdown_user_mem by blast
    have 1: "us_total_invested us \<le> 0 \<longrightarrow> us_profit_loss_percent us = 0"
      by (simp add: summarise_user_facts(7) [OF u])
    have 2: "(ps_total_invested ps \<le> 0 \<longrightarrow> ps_profit_loss_percent ps = 0)
               \<and> (\<forall>s \<in> set (ps_accounts ps).
                    (as_total_invested s \<le> 0 \<longrightarrow> as_profit_loss_percent s = 0)
                    \<and> (\<forall>a \<in> set (as_assets s).
                         ad_total_invested a \<le> 0 \<longrightarrow> ad_profit_loss_percent a = 0))"
      if "ps \<in> set (us_platforms us)" for ps
    proof -
      from user_platform_mem [OF u that] obtain p pf
        where p: "summarise_platform d' ds' u p = Inr (ps, pf)" by blast
      have 3: "ps_total_invested ps \<le> 0 \<longrightarrow> ps_profit_loss_percent ps = 0"
        by (simp add: summarise_platform_facts(7) [OF p])
      have 4: "(as_total_invested s \<le> 0 \<longrightarrow> as_profit_loss_percent s = 0)
                    \<and> (\<forall>a \<in> set (as_assets s).
                         ad_total_invested a \<le> 0 \<longrightarrow> ad_profit_loss_percent a = 0)"
        if "s \<in> set (ps_accounts ps)" for s
      proof -
        from platform_account_mem [OF p that] obtain acc
          where acc: "summarise_account ds' acc = Inr s" by blast
        have "as_total_invested s \<le> 0 \<longrightarrow> as_profit_loss_percent s = 0"
          by (simp add: summarise_account_facts(8) [OF acc])
        moreover have "set (as_assets s) \<subseteq> set ds'"
          by (simp add: summarise_account_facts(1) [OF acc])
        ultimately show ?thesis using asset by blast
      qed
      from 3 4 show ?thesis by blast
    qed
    from 1 2 show ?thesis by blast
  qed
  have m: "\<forall>a. \<exists>m. derive_asset_metrics a = Inr m
            \<and> (m_total_invested m \<le> 0 \<longrightarrow> m_profit_loss_percent m = 0)"
    by (simp add: derive_asset_metrics_eq)
  have q: "\<forall>pl ti. \<exists>q. guarded_percent pl ti = Inr q \<and> (ti \<le> 0 \<longrightarrow> q = 0)"
    by (simp add: guarded_percent_eq)
  from v g users m q show ?thesis by blast
qed

lemma zero_cost_eval:
  "case index (\<lambda>_. []) ''2024-01-02'' zero_cost_store of Inl _ \<Rightarrow> False
   | Inr v \<Rightarrow>
       g_total_invested_assets (global_data v) \<le> 0
     \<and> breakdown_data v \<noteq> []
     \<and> us_total_invested (hd (breakdown_data v)) \<le> 0
     \<and> us_platforms (hd (breakdown_data v)) \<noteq> []
     \<and> ps_total_invested (hd (us_platforms (hd (breakdown_data v)))) \<le> 0
     \<and> ps_accounts (hd (us_platforms (hd (breakdown_data v)))) \<noteq> []
     \<and> as_total_invested (hd (ps_accounts (hd (us_platforms (hd (breakdown_data v)))))) \<le> 0
     \<and> as_assets (hd (ps_accounts (hd (us_platforms (hd (breakdown_data v)))))) \<noteq> []
     \<and> ad_total_invested
           (hd (as_assets (hd (ps_accounts (hd (us_platforms (hd (breakdown_data v)))))))) \<le> 0
     \<and> ad_current_value
           (hd (as_assets (hd (ps_accounts (hd (us_platforms (hd (breakdown_data v)))))))) = 40"
  by code_simp

theorem profit_loss_percent_guarded_witness:
  "\<exists>v. index (\<lambda>_. []) ''2024-01-02'' zero_cost_store = Inr v
     \<and> g_total_invested_assets (global_data v) \<le> 0
     \<and> g_profit_loss_percent (global_data v) = 0
     \<and> us_total_invested (hd (breakdown_data v)) \<le> 0
     \<and> us_profit_loss_percent (hd (breakdown_data v)) = 0
     \<and> ps_total_invested (hd (us_platforms (hd (breakdown_data v)))) \<le> 0
     \<and> ps_profit_loss_percent (hd (us_platforms (hd (breakdown_data v)))) = 0
     \<and> as_total_invested (hd (ps_accounts (hd (us_platforms (hd (breakdown_data v)))))) \<le> 0
     \<and> as_profit_loss_percent
           (hd (ps_accounts (hd (us_platforms (hd (breakdown_data v)))))) = 0
     \<and> ad_total_invested
           (hd (as_assets (hd (ps_accounts (hd (us_platforms (hd (breakdown_data v)))))))) \<le> 0
     \<and> ad_current_value
           (hd (as_assets (hd (ps_accounts (hd (us_platforms (hd (breakdown_data v)))))))) = 40
     \<and> ad_profit_loss_percent
           (hd (as_assets (hd (ps_accounts (hd (us_platforms (hd (breakdown_data v)))))))) = 0"
proof -
  from profit_loss_percent_guarded [of "\<lambda>_. []" "''2024-01-02''" zero_cost_store]
  obtain v where v: "index (\<lambda>_. []) ''2024-01-02'' zero_cost_store = Inr v"
    and g: "g_total_invested_assets (global_data v) \<le> 0
          \<longrightarrow> g_profit_loss_percent (global_data v) = 0"
    and u: "\<forall>us \<in> set (breakdown_data v).
          (us_total_invested us \<le> 0 \<longrightarrow> us_profit_loss_percent us = 0)
          \<and> (\<forall>ps \<in> set (us_platforms us).
               (ps_total_invested ps \<le> 0 \<longrightarrow> ps_profit_loss_percent ps = 0)
               \<and> (\<forall>s \<in> set (ps_accounts ps).
                    (as_total_invested s \<le> 0 \<longrightarrow> as_profit_loss_percent s = 0)
                    \<and> (\<forall>a \<in> set (as_assets s).
                         ad_total_invested a \<le> 0 \<longrightarrow> ad_profit_loss_percent a = 0)))"
    by blast
  from zero_cost_eval v have e:
    "g_total_invested_assets (global_data v) \<le> 0"
    "breakdown_data v \<noteq> []"
    "us_total_invested (hd (breakdown_data v)) \<le> 0"
    "us_platforms (hd (breakdown_data v)) \<noteq> []"
    "ps_total_invested (hd (us_platforms (hd (breakdown_data v)))) \<le> 0"
    "ps_accounts (hd (us_platforms (hd (breakdown_data v)))) \<noteq> []"
    "as_total_invested (hd (ps_accounts (hd (us_platforms (hd (breakdown_data v)))))) \<le> 0"
    "as_assets (hd (ps_accounts (hd (us_platforms (hd (breakdown_data v)))))) \<noteq> []"
    "ad_total_invested
           (hd (as_assets (hd (ps_accounts (hd (us_platforms (hd (breakdown_data v)))))))) \<le> 0"
    "ad_current_value
           (hd (as_assets (hd (ps_accounts (hd (us_platforms (hd (breakdown_data v)))))))) = 40"
    by simp_all
  have 1: "hd (breakdown_data v) \<in> set (breakdown_data v)"
    using e(2) by simp
  have 2: "hd (us_platforms (hd (breakdown_data v))) \<in> set (us_platforms (hd (breakdown_data v)))"
    using e(4) by simp
  have 3: "hd (ps_accounts (hd (us_platforms (hd (breakdown_data v)))))
             \<in> set (ps_accounts (hd (us_platforms (hd (breakdown_data v)))))"
    using e(6) by simp
  have 4: "hd (as_assets (hd (ps_accounts (hd (us_platforms (hd (breakdown_data v)))))))
             \<in> set (as_assets (hd (ps_accounts (hd (us_platforms (hd (breakdown_data v)))))))"
    using e(8) by simp
  from u 1 2 3 4 e g v show ?thesis by blast
qed

section \<open>Per-asset derivation: the day change of an asset without prices\<close>

lemma assets_list_for_template_eq:
  "assets_list_for_template d account_id =
     Inr (map (\<lambda>a. (a, projr (derive_asset_metrics a)))
            (sort_key ast_ticker_symbol
               (filter (\<lambda>a. ast_account_id a = account_id) (db_assets d))))"
proof -
  have "emap (\<lambda>a. ebind (derive_asset_metrics a) (\<lambda>m. Inr (a, m))) xs
        = Inr (map (\<lambda>a. projr (ebind (derive_asset_metrics a) (\<lambda>m. Inr (a, m)))) xs)" for xs
    by (rule emap_Inr) (simp add: derive_asset_metrics_eq)
  then show ?thesis
    by (simp add: assets_list_for_template_def derive_asset_metrics_eq)
qed

lemma derive_asset_metrics_Inr:
  "derive_asset_metrics a = Inr (projr (derive_asset_metrics a))"
  by (simp add: derive_asset_metrics_eq)

text \<open>
  C10. For an asset whose current price or previous close is unknown, or whose previous
  close is not positive, the per-asset derivation reports day_change_percent as the number
  0, as it does for an asset whose price did not change; percent_to_52_week_high is absent
  in the analogous case. Both the dashboard and the asset list of an account obtain their
  derived values from this derivation.
\<close>

theorem day_change_percent_zero_when_unknown:
  "(ast_current_price a = None \<or> ast_price_yesterday a = None
      \<or> (\<exists>py. ast_price_yesterday a = Some py \<and> py \<le> 0)
     \<longrightarrow> (\<exists>m. derive_asset_metrics a = Inr m \<and> m_day_change_percent m = 0))
   \<and> (ast_current_price a = Some c \<and> ast_price_yesterday a = Some c \<and> 0 < c
     \<longrightarrow> (\<exists>m. derive_asset_metrics a = Inr m \<and> m_day_change_percent m = 0))
   \<and> (ast_current_price a = None \<or> ast_fifty_two_week_high a = None
      \<or> (\<exists>hi. ast_fifty_two_week_high a = Some hi \<and> hi \<le> 0)
     \<longrightarrow> (\<exists>m. derive_asset_metrics a = Inr m \<and> m_percent_to_52_week_high m = None))
   \<and> (\<exists>x. asset_detail_of row = Inr x
          \<and> derive_asset_metrics (r_asset row) = Inr (ad_metrics x))
   \<and> (\<exists>items. assets_list_for_template d account_id = Inr items
          \<and> (\<forall>item \<in> set items. derive_asset_metrics (fst item) = Inr (snd item)))"
proof -
  have 1: "ast_current_price a = None \<or> ast_price_yesterday a = None
      \<or> (\<exists>py. ast_price_yesterday a = Some py \<and> py \<le> 0)
     \<longrightarrow> (\<exists>m. derive_asset_metrics a = Inr m \<and> m_day_change_percent m = 0)"
    by (auto simp: derive_asset_metrics_eq split: option.splits)
  have 2: "ast_current_price a = Some c \<and> ast_price_yesterday a = Some c \<and> 0 < c
     \<longrightarrow> (\<exists>m. derive_asset_metrics a = Inr m \<and> m_day_change_percent m = 0)"
    by (auto simp: derive_asset_metrics_eq)
  have 3: "ast_current_price a = None \<or> ast_fifty_two_week_high a = None
      \<or> (\<exists>hi. ast_fifty_two_week_high a = Some hi \<and> hi \<le> 0)
     \<longrightarrow> (\<exists>m. derive_asset_metrics a = Inr m \<and> m_percent_to_52_week_high m = None)"
    by (auto simp: derive_asset_metrics_eq split: option.splits)
  have 4: "\<exists>x. asset_detail_of row = Inr x
          \<and> derive_asset_metrics (r_asset row) = Inr (ad_metrics x)"
    by (simp add: asset_detail_of_eq derive_asset_metrics_eq)
  have 5: "\<exists>items. assets_list_for_template d account_id = Inr items
          \<and> (\<forall>item \<in> set items. derive_asset_metrics (fst item) = Inr (snd item))"
    unfolding assets_list_for_template_eq by (auto intro: derive_asset_metrics_Inr)
  from 1 2 3 4 5 show ?thesis by blast
qed

lemma example_template_eval:
  "case assets_list_for_template example_store 1 of Inl _ \<Rightarrow> False
   | Inr items \<Rightarrow>
       map (\<lambda>item. ast_ticker_symbol (fst item)) items = [''AAA'', ''BBB'', ''DDD'']
     \<and> map (\<lambda>item. ast_current_price (fst item)) items = [Some 150, None, Some 150]
     \<and> map (\<lambda>item. ast_price_yesterday (fst item)) items = [Some 120, None, None]"
  by code_simp

lemma example_unchanged_eval:
  "ast_current_price (hd (db_assets zero_cost_store)) = Some 10
   \<and> ast_price_yesterday (hd (db_assets zero_cost_store)) = Some 10"
  by code_simp

lemma example_unknown_eval:
  "ast_current_price (db_assets example_store ! 1) = None
   \<and> ast_current_price (db_assets example_store ! 3) = Some 150
   \<and> ast_price_yesterday (db_assets example_store ! 3) = None
   \<and> ast_price_yesterday (db_assets example_store ! 2) = Some 100
   \<and> ast_fifty_two_week_high (db_assets example_store ! 2) = Some 0"
  by code_simp

theorem day_change_percent_zero_when_unknown_witness:
  "(\<exists>m. derive_asset_metrics (db_assets example_store ! 1) = Inr m
       \<and> m_day_change_percent m = 0 \<and> m_percent_to_52_week_high m = None)
   \<and> (\<exists>m. derive_asset_metrics (db_assets example_store ! 3) = Inr m
       \<and> m_day_change_percent m = 0)
   \<and> (\<exists>m. derive_asset_metrics (db_assets example_store ! 2) = Inr m
       \<and> m_percent_to_52_week_high m = None)
   \<and> (\<exists>m. derive_asset_metrics (hd (db_assets zero_cost_store)) = Inr m
       \<and> m_day_change_percent m = 0)
   \<and> (\<exists>items. assets_list_for_template example_store 1 = Inr items
       \<and> map (\<lambda>item. ast_ticker_symbol (fst item)) items = [''AAA'', ''BBB'', ''DDD'']
       \<and> derive_asset_metrics (fst (items ! 1)) = Inr (snd (items ! 1))
       \<and> m_day_change_percent (snd (items ! 1)) = 0)"
proof -
  note t = day_change_percent_zero_when_unknown
  note day = t [THEN conjunct1]
  note same = t [THEN conjunct2, THEN conjunct1]
  note high = t [THEN conjunct2, THEN conjunct2, THEN conjunct1]
  note template = t [THEN conjunct2, THEN conjunct2, THEN conjunct2, THEN conjunct2]
  have a: "\<exists>m. derive_asset_metrics (db_assets example_store ! 1) = Inr m
       \<and> m_day_change_percent m = 0 \<and> m_percent_to_52_week_high m = None"
  proof -
    from day [of "db_assets example_store ! 1"] example_unknown_eval
    obtain m1 where m1: "derive_asset_metrics (db_assets example_store ! 1) = Inr m1"
      "m_day_change_percent m1 = 0" by auto
    from high [of "db_assets example_store ! 1"] example_unknown_eval
    obtain m2 where m2: "derive_asset_metrics (db_assets example_store ! 1) = Inr m2"
      "m_percent_to_52_week_high m2 = None" by auto
    from m1 m2 have "m1 = m2" by simp
    with m1 m2 show ?thesis by simp
  qed
  have b: "\<exists>m. derive_asset_metrics (db_assets example_store ! 3) = Inr m
       \<and> m_day_change_percent m = 0"
    using day [of "db_assets example_store ! 3"] example_unknown_eval by auto
  have c: "\<exists>m. derive_asset_metrics (db_assets example_store ! 2) = Inr m
       \<and> m_percent_to_52_week_high m = None"
    using high [of "db_assets example_store ! 2"] example_unknown_eval by auto
  have d: "\<exists>m. derive_asset_metrics (hd (db_assets zero_cost_store)) = Inr m
       \<and> m_day_change_percent m = 0"
    using same [of "hd (db_assets zero_cost_store)" 10] example_unchanged_eval by auto
  from template [of example_store 1] obtain items
    where i: "assets_list_for_template example_store 1 = Inr items"
      and j: "\<forall>item \<in> set items. derive_asset_metrics (fst item) = Inr (snd item)"
    by blast
  from example_template_eval i have k:
    "map (\<lambda>item. ast_ticker_symbol (fst item)) items = [''AAA'', ''BBB'', ''DDD'']"
    "map (\<lambda>item. ast_current_price (fst item)) items = [Some 150, None, Some 150]"
    by simp_all
  have "length (map (\<lambda>item. ast_ticker_symbol (fst item)) items)
          = length [''AAA'', ''BBB'', ''DDD'']"
    by (simp only: k(1))
  then have len: "length items = 3" by simp
  then have mem: "items ! 1 \<in> set items" by simp
  with j have l: "derive_asset_metrics (fst (items ! 1)) = Inr (snd (items ! 1))" by blast
  have "map (\<lambda>item. ast_current_price (fst item)) items ! 1 = None"
    by (simp only: k(2)) simp
  then have "ast_current_price (fst (items ! 1)) = None"
    using len by simp
  with day [of "fst (items ! 1)"] l have z: "m_day_change_percent (snd (items ! 1)) = 0"
    by auto
  have e: "\<exists>items. assets_list_for_template example_store 1 = Inr items
       \<and> map (\<lambda>item. ast_ticker_symbol (fst item)) items = [''AAA'', ''BBB'', ''DDD'']
       \<and> derive_asset_metrics (fst (items ! 1)) = Inr (snd (items ! 1))
       \<and> m_day_change_percent (snd (items ! 1)) = 0"
    by (intro exI [where x = items] conjI) (fact i k(1) l z)+
  from a b c d e show ?thesis by (intro conjI)
qed

section \<open>The dashboard: the rollup of current values\<close>





lemma summarise_platform_history_irrelevant:
  "summarise_platform (d\<lparr> db_portfolio_history := h \<rparr>) ds u = summarise_platform d ds u"
  by (rule ext) (simp add: summarise_platform_def accounts_on_platform_def)

lemma summarise_user_history_irrelevant:
  "summarise_user (d\<lparr> db_portfolio_history := h \<rparr>) ds = summarise_user d ds"
  by (rule ext)
    (simp add: summarise_user_def user_platforms_def summarise_platform_history_irrelevant)

lemma breakdown_history_irrelevant:
  "breakdown (d\<lparr> db_portfolio_history := h \<rparr>) ds = breakdown d ds"
  by (simp add: breakdown_def summarise_user_history_irrelevant)

lemma index_parts:
  assumes ds: "emap asset_detail_of (assets_query_for_dashboard d) = Inr ds"
    and r: "breakdown d (rk_all_assets_detailed (rank_and_chart y ds)) = Inr r"
  shows "\<exists>v. index y today d = Inr v
     \<and> breakdown_data v = fst r
     \<and> g_total_invested_assets (global_data v) = sum_list (map ad_total_invested ds)
     \<and> g_current_value_of_assets (global_data v) = sum_list (map ad_current_value ds)
     \<and> g_best_performing_asset (global_data v)
          = rk_best_performing_asset (rank_and_chart y ds)
     \<and> g_worst_performing_asset (global_data v)
          = rk_worst_performing_asset (rank_and_chart y ds)
     \<and> g_all_assets_ranked (global_data v) = rk_all_assets_ranked (rank_and_chart y ds)
     \<and> g_account_type_allocation_data_for_chart (global_data v)
          = account_type_allocation_data_for_chart (fst r)
     \<and> g_user_allocation_data_for_chart (global_data v)
          = user_allocation_data_for_chart (fst r)
     \<and> g_individual_account_allocation_data_for_chart (global_data v)
          = individual_account_allocation_data_for_chart (snd r)
     \<and> g_all_accounts_ranked_by_performance (global_data v) = ranked_accounts (snd r)
     \<and> db_portfolio_history (store v)
          = record_snapshot today (g_overall_portfolio_value (global_data v))
              (db_portfolio_history d)"
proof -
  have d: "ds = map (\<lambda>r. projr (asset_detail_of r)) (assets_query_for_dashboard d)"
    using ds unfolding all_assets_detailed_eq by simp
  show ?thesis
    unfolding index_eq d [symmetric] breakdown_history_irrelevant r
    by simp
qed




section \<open>The dashboard: one snapshot per day\<close>

lemma record_snapshot_present:
  "today \<in> set (map fst h) \<Longrightarrow> record_snapshot today v h = h"
  by (auto simp: record_snapshot_def find_None_iff split: option.splits)

lemma record_snapshot_absent:
  "today \<notin> set (map fst h) \<Longrightarrow> record_snapshot today v h = h @ [(today, v)]"
proof -
  assume a: "today \<notin> set (map fst h)"
  then have "find (\<lambda>row. fst row = today) h = None"
    by (force simp: find_None_iff)
  with a show ?thesis
    by (simp add: record_snapshot_def insert_snapshot_def)
qed

lemma record_snapshot_distinct:
  "distinct (map fst h) \<Longrightarrow> distinct (map fst (record_snapshot today v h))"
  by (cases "today \<in> set (map fst h)")
    (simp_all add: record_snapshot_present record_snapshot_absent)

lemma record_snapshot_has_today:
  "today \<in> set (map fst (record_snapshot today v h))"
  by (cases "today \<in> set (map fst h)")
    (simp_all add: record_snapshot_present record_snapshot_absent)

lemma index_store:
  "\<exists>v. index y today d = Inr v
     \<and> store v = d\<lparr> db_portfolio_history :=
                      record_snapshot today (g_overall_portfolio_value (global_data v))
                        (db_portfolio_history d) \<rparr>"
  unfolding index_eq by simp

text \<open>
  C3. A dashboard run keeps the snapshot dates of the history distinct. If a snapshot
  for today exists, the run leaves the history as it is; if none exists, the run appends
  exactly one row, carrying the overall portfolio value it has just computed. After a run,
  any further run on the same date, whatever the other tables then hold, leaves the
  history unchanged; running twice yields the store of running once. The other tables are
  never changed by a run.
\<close>

theorem one_snapshot_per_day:
  "\<exists>v. index y today d = Inr v
     \<and> (distinct (map fst (db_portfolio_history d))
          \<longrightarrow> distinct (map fst (db_portfolio_history (store v))))
     \<and> (today \<in> set (map fst (db_portfolio_history d))
          \<longrightarrow> db_portfolio_history (store v) = db_portfolio_history d)
     \<and> (today \<notin> set (map fst (db_portfolio_history d))
          \<longrightarrow> db_portfolio_history (store v)
                = db_portfolio_history d
                    @ [(today, g_overall_portfolio_value (global_data v))])
     \<and> (\<forall>y2 d2. db_portfolio_history d2 = db_portfolio_history (store v)
          \<longrightarrow> (\<exists>v2. index y2 today d2 = Inr v2
                 \<and> db_portfolio_history (store v2) = db_portfolio_history (store v)))
     \<and> (\<exists>v2. index y today (store v) = Inr v2 \<and> store v2 = store v)
     \<and> db_users (store v) = db_users d
     \<and> db_platforms (store v) = db_platforms d
     \<and> db_accounts (store v) = db_accounts d
     \<and> db_assets (store v) = db_assets d"
proof -
  from index_store [of y today d] obtain v
    where v: "index y today d = Inr v"
      and s: "store v = d\<lparr> db_portfolio_history :=
                      record_snapshot today (g_overall_portfolio_value (global_data v))
                        (db_portfolio_history d) \<rparr>"
    by blast
  have h: "db_portfolio_history (store v)
             = record_snapshot today (g_overall_portfolio_value (global_data v))
                 (db_portfolio_history d)"
    by (simp add: s)
  have 1: "distinct (map fst (db_portfolio_history d))
          \<longrightarrow> distinct (map fst (db_portfolio_history (store v)))"
    by (simp add: h record_snapshot_distinct)
  have 2: "today \<in> set (map fst (db_portfolio_history d))
          \<longrightarrow> db_portfolio_history (store v) = db_portfolio_history d"
    by (simp add: h record_snapshot_present)
  have 3: "today \<notin> set (map fst (db_portfolio_history d))
          \<longrightarrow> db_portfolio_history (store v)
                = db_portfolio_history d
                    @ [(today, g_overall_portfolio_value (global_data v))]"
    using record_snapshot_absent [of today "db_portfolio_history d"] by (simp add: h)
  have now: "today \<in> set (map fst (db_portfolio_history (store v)))"
    unfolding h by (rule record_snapshot_has_today)
  have again: "\<exists>v2. index y2 today d2 = Inr v2 \<and> store v2 = d2"
    if "today \<in> set (map fst (db_portfolio_history d2))" for y2 and d2 :: db
  proof -
    from index_store [of y2 today d2] obtain v2
      where "index y2 today d2 = Inr v2"
        and "store v2 = d2\<lparr> db_portfolio_history :=
                      record_snapshot today (g_overall_portfolio_value (global_data v2))
                        (db_portfolio_history d2) \<rparr>"
      by blast
    with that show ?thesis by (simp add: record_snapshot_present)
  qed
  have 4: "\<forall>y2 d2. db_portfolio_history d2 = db_portfolio_history (store v)
          \<longrightarrow> (\<exists>v2. index y2 today d2 = Inr v2
                 \<and> db_portfolio_history (store v2) = db_portfolio_history (store v))"
  proof (intro allI impI)
    fix y2 and d2 :: db
    assume eq: "db_portfolio_history d2 = db_portfolio_history (store v)"
    with now have "today \<in> set (map fst (db_portfolio_history d2))" by simp
    from again [OF this, of y2] eq
    show "\<exists>v2. index y2 today d2 = Inr v2
                 \<and> db_portfolio_history (store v2) = db_portfolio_history (store v)"
      by auto
  qed
  have 5: "\<exists>v2. index y today (store v) = Inr v2 \<and> store v2 = store v"
    using again [OF now] .
  have 6: "db_users (store v) = db_users d" "db_platforms (store v) = db_platforms d"
    "db_accounts (store v) = db_accounts d" "db_assets (store v) = db_assets d"
    by (simp_all add: s)
  from v 1 2 3 4 5 6 show ?thesis by blast
qed

lemma zero_cost_snapshot_eval:
  "case index (\<lambda>_. []) ''2024-01-02'' zero_cost_store of Inl _ \<Rightarrow> False
   | Inr v \<Rightarrow> g_overall_portfolio_value (global_data v) = 40"
  by code_simp

theorem one_snapshot_per_day_witness:
  "\<exists>v v2 v3.
     index (\<lambda>_. []) ''2024-01-02'' zero_cost_store = Inr v
     \<and> db_portfolio_history zero_cost_store = []
     \<and> db_portfolio_history (store v) = [(''2024-01-02'', 40)]
     \<and> distinct (map fst (db_portfolio_history (store v)))
     \<and> index (\<lambda>_. []) ''2024-01-02'' (store v) = Inr v2
     \<and> db_portfolio_history (store v2) = [(''2024-01-02'', 40)]
     \<and> index (\<lambda>_. [(''2024-01-01'', 1)]) ''2024-01-02''
          ((store v)\<lparr> db_assets := [] \<rparr>) = Inr v3
     \<and> db_portfolio_history (store v3) = [(''2024-01-02'', 40)]"
proof -
  have empty: "db_portfolio_history zero_cost_store = []"
    by (simp add: zero_cost_store_def)
  from one_snapshot_per_day [of "\<lambda>_. []" "''2024-01-02''" zero_cost_store]
  obtain v where v: "index (\<lambda>_. []) ''2024-01-02'' zero_cost_store = Inr v"
    and d: "distinct (map fst (db_portfolio_history zero_cost_store))
          \<longrightarrow> distinct (map fst (db_portfolio_history (store v)))"
    and a: "''2024-01-02'' \<notin> set (map fst (db_portfolio_history zero_cost_store))
          \<longrightarrow> db_portfolio_history (store v)
                = db_portfolio_history zero_cost_store
                    @ [(''2024-01-02'', g_overall_portfolio_value (global_data v))]"
    and g: "\<forall>y2 d2. db_portfolio_history d2 = db_portfolio_history (store v)
          \<longrightarrow> (\<exists>v2. index y2 ''2024-01-02'' d2 = Inr v2
                 \<and> db_portfolio_history (store v2) = db_portfolio_history (store v))"
    and t: "\<exists>v2. index (\<lambda>_. []) ''2024-01-02'' (store v) = Inr v2 \<and> store v2 = store v"
    by blast
  from zero_cost_snapshot_eval v
  have o: "g_overall_portfolio_value (global_data v) = 40" by simp
  from a empty o have h: "db_portfolio_history (store v) = [(''2024-01-02'', 40)]"
    by simp
  from d empty have dist: "distinct (map fst (db_portfolio_history (store v)))"
    by simp
  from t obtain v2 where v2: "index (\<lambda>_. []) ''2024-01-02'' (store v) = Inr v2"
    "store v2 = store v" by blast
  then have h2: "db_portfolio_history (store v2) = [(''2024-01-02'', 40)]"
    by (simp add: h)
  have "db_portfolio_history ((store v)\<lparr> db_assets := [] \<rparr>) = db_portfolio_history (store v)"
    by simp
  with g obtain v3
    where v3: "index (\<lambda>_. [(''2024-01-01'', 1)]) ''2024-01-02''
                 ((store v)\<lparr> db_assets := [] \<rparr>) = Inr v3"
      "db_portfolio_history (store v3) = db_portfolio_history (store v)"
    by blast
  then have h3: "db_portfolio_history (store v3) = [(''2024-01-02'', 40)]"
    by (simp add: h)
  show ?thesis
    by (intro exI [where x = v] exI [where x = v2] exI [where x = v3] conjI)
      (fact v empty h dist v2(1) h2 v3(1) h3)+
qed

section \<open>The dashboard: ranking of assets and accounts\<close>

lemma proj_filter:
  assumes "map P xs = map P ys"
  shows "map (\<lambda>a. h (P a)) (filter (\<lambda>a. g (P a)) xs)
       = map (\<lambda>a. h (P a)) (filter (\<lambda>a. g (P a)) ys)"
proof -
  have conv: "map (\<lambda>a. h (P a)) (filter (\<lambda>a. g (P a)) zs) = map h (filter g (map P zs))"
    for zs
    by (simp add: filter_map comp_def)
  have "map (\<lambda>a. h (P a)) (filter (\<lambda>a. g (P a)) xs) = map h (filter g (map P xs))"
    by (rule conv)
  also have "\<dots> = map h (filter g (map P ys))"
    by (simp only: assms)
  also have "\<dots> = map (\<lambda>a. h (P a)) (filter (\<lambda>a. g (P a)) ys)"
    by (rule conv [symmetric])
  finally show ?thesis .
qed

lemma row_metrics_pairs:
  fixes ds ds' :: "asset_detail list"
  assumes "map ad_row ds' = map ad_row ds" and "map ad_metrics ds' = map ad_metrics ds"
  shows "map (\<lambda>a. (ad_row a, ad_metrics a)) ds' = map (\<lambda>a. (ad_row a, ad_metrics a)) ds"
  using assms
proof (induction ds' arbitrary: ds)
  case Nil
  then show ?case by simp
next
  case (Cons x xs)
  then obtain y ys where "ds = y # ys" by (cases ds) auto
  with Cons show ?case by auto
qed

lemma ranked_pairs:
  "map (\<lambda>a. (ad_row a, ad_metrics a)) (rk_all_assets_ranked (rank_and_chart y ds))
   = map (\<lambda>a. (ad_row a, ad_metrics a))
       (sorted_reverse ad_profit_loss_percent (filter (\<lambda>a. ad_total_invested a > 0) ds))"
  by (rule rank_and_chart_ranked_proj) (rule row_metrics_pairs)

lemma ranking_facts:
  fixes y ds
  defines "ranked \<equiv> rk_all_assets_ranked (rank_and_chart y ds)"
  defines "valid \<equiv> filter (\<lambda>a. ad_total_invested a > 0) ds"
  shows "mset (map (\<lambda>a. (ad_row a, ad_metrics a)) ranked)
           = mset (map (\<lambda>a. (ad_row a, ad_metrics a)) valid)"
    and "\<forall>a \<in> set ranked. ad_total_invested a > 0"
    and "sorted_wrt (\<lambda>a b. ad_profit_loss_percent a \<ge> ad_profit_loss_percent b) ranked"
    and "\<forall>c. map ad_row (filter (\<lambda>a. ad_profit_loss_percent a = c) ranked)
             = map ad_row (filter (\<lambda>a. ad_profit_loss_percent a = c) valid)"
proof -
  define R where "R = sorted_reverse ad_profit_loss_percent valid"
  have pairs: "map (\<lambda>a. (ad_row a, ad_metrics a)) ranked
                 = map (\<lambda>a. (ad_row a, ad_metrics a)) R"
    unfolding ranked_def R_def valid_def by (rule ranked_pairs)
  have via: "map (\<lambda>a. h (ad_row a, ad_metrics a)) ranked
               = map (\<lambda>a. h (ad_row a, ad_metrics a)) R" for h :: "dashboard_row \<times> asset_metrics \<Rightarrow> 'b"
    using proj_filter [OF pairs, of h "\<lambda>_. True"] by simp
  have "mset (map (\<lambda>a. (ad_row a, ad_metrics a)) R)
          = mset (map (\<lambda>a. (ad_row a, ad_metrics a)) valid)"
    by (simp add: R_def)
  then show "mset (map (\<lambda>a. (ad_row a, ad_metrics a)) ranked)
           = mset (map (\<lambda>a. (ad_row a, ad_metrics a)) valid)"
    by (simp only: pairs)
  have ti: "map ad_total_invested ranked = map ad_total_invested R"
    using via [of "\<lambda>p. m_total_invested (snd p)"] by simp
  have "\<forall>x \<in> set (map ad_total_invested R). x > 0"
    by (auto simp: R_def valid_def)
  then have "\<forall>x \<in> set (map ad_total_invested ranked). x > 0"
    by (simp only: ti)
  then show "\<forall>a \<in> set ranked. ad_total_invested a > 0"
    by simp
  have plp: "map ad_profit_loss_percent ranked = map ad_profit_loss_percent R"
    using via [of "\<lambda>p. m_profit_loss_percent (snd p)"] by simp
  have "sorted_wrt (\<lambda>a b. a \<ge> b) (map ad_profit_loss_percent R)"
    unfolding R_def sorted_wrt_map by (rule sorted_reverse_descending)
  then have "sorted_wrt (\<lambda>a b. a \<ge> b) (map ad_profit_loss_percent ranked)"
    by (simp only: plp)
  then show "sorted_wrt (\<lambda>a b. ad_profit_loss_percent a \<ge> ad_profit_loss_percent b) ranked"
    by (simp only: sorted_wrt_map)
  show "\<forall>c. map ad_row (filter (\<lambda>a. ad_profit_loss_percent a = c) ranked)
             = map ad_row (filter (\<lambda>a. ad_profit_loss_percent a = c) valid)"
  proof
    fix c
    have "map ad_row (filter (\<lambda>a. ad_profit_loss_percent a = c) ranked)
            = map ad_row (filter (\<lambda>a. ad_profit_loss_percent a = c) R)"
      using proj_filter [OF pairs, of fst "\<lambda>p. m_profit_loss_percent (snd p) = c"] by simp
    also have "filter (\<lambda>a. ad_profit_loss_percent a = c) R
                 = filter (\<lambda>a. ad_profit_loss_percent a = c) valid"
      unfolding R_def by (rule sorted_reverse_stable)
    finally show "map ad_row (filter (\<lambda>a. ad_profit_loss_percent a = c) ranked)
             = map ad_row (filter (\<lambda>a. ad_profit_loss_percent a = c) valid)" .
  qed
qed

lemma ranked_accounts_facts:
  shows "mset (ranked_accounts perfs) = mset (filter (\<lambda>p. ap_total_invested p > 0) perfs)"
    and "sorted_wrt (\<lambda>a b. ap_profit_loss_percent a \<ge> ap_profit_loss_percent b)
           (ranked_accounts perfs)"
    and "\<forall>c. filter (\<lambda>p. ap_profit_loss_percent p = c) (ranked_accounts perfs)
             = filter (\<lambda>p. ap_profit_loss_percent p = c)
                 (filter (\<lambda>p. ap_total_invested p > 0) perfs)"
  unfolding ranked_accounts_def
  by (simp_all add: sorted_reverse_descending sorted_reverse_stable)

text \<open>
  C7. The ranked asset list of the dashboard holds exactly the asset rows whose
  total_invested is positive (the profit/loss percent is always defined), in descending
  order of profit_loss_percent, assets with equal percent in their input order. The best
  performer is its first element and the worst its last; with exactly one element they are
  the same. The ranked account list holds exactly the accounts whose total_invested is
  positive, in the same descending and stable order.
\<close>

theorem ranking_descending_stable:
  "\<exists>v details perfs.
     index y today d = Inr v
     \<and> emap asset_detail_of (assets_query_for_dashboard d) = Inr details
     \<and> breakdown d (rk_all_assets_detailed (rank_and_chart y details))
         = Inr (breakdown_data v, perfs)
     \<and> mset (map (\<lambda>a. (ad_row a, ad_metrics a)) (g_all_assets_ranked (global_data v)))
         = mset (map (\<lambda>a. (ad_row a, ad_metrics a))
                  (filter (\<lambda>a. ad_total_invested a > 0) details))
     \<and> (\<forall>a \<in> set (g_all_assets_ranked (global_data v)). ad_total_invested a > 0)
     \<and> sorted_wrt (\<lambda>a b. ad_profit_loss_percent a \<ge> ad_profit_loss_percent b)
         (g_all_assets_ranked (global_data v))
     \<and> (\<forall>c. map ad_row (filter (\<lambda>a. ad_profit_loss_percent a = c)
                           (g_all_assets_ranked (global_data v)))
            = map ad_row (filter (\<lambda>a. ad_profit_loss_percent a = c)
                           (filter (\<lambda>a. ad_total_invested a > 0) details)))
     \<and> g_best_performing_asset (global_data v)
         = (if g_all_assets_ranked (global_data v) = [] then None
            else Some (hd (g_all_assets_ranked (global_data v))))
     \<and> g_worst_performing_asset (global_data v)
         = (if g_all_assets_ranked (global_data v) = [] then None
            else Some (last (g_all_assets_ranked (global_data v))))
     \<and> (length (g_all_assets_ranked (global_data v)) = 1
          \<longrightarrow> g_best_performing_asset (global_data v)
                = Some (hd (g_all_assets_ranked (global_data v)))
              \<and> g_worst_performing_asset (global_data v)
                = g_best_performing_asset (global_data v))
     \<and> mset (g_all_accounts_ranked_by_performance (global_data v))
         = mset (filter (\<lambda>p. ap_total_invested p > 0) perfs)
     \<and> sorted_wrt (\<lambda>a b. ap_profit_loss_percent a \<ge> ap_profit_loss_percent b)
         (g_all_accounts_ranked_by_performance (global_data v))
     \<and> (\<forall>c. filter (\<lambda>p. ap_profit_loss_percent p = c)
               (g_all_accounts_ranked_by_performance (global_data v))
            = filter (\<lambda>p. ap_profit_loss_percent p = c)
                (filter (\<lambda>p. ap_total_invested p > 0) perfs))"
proof -
  obtain details where det: "emap asset_detail_of (assets_query_for_dashboard d) = Inr details"
    using all_assets_detailed_eq by blast
  obtain r where r: "breakdown d (rk_all_assets_detailed (rank_and_chart y details)) = Inr r"
    using breakdown_eq by blast
  from index_parts [OF det r, of today] obtain v
    where v: "index y today d = Inr v"
      and bd: "breakdown_data v = fst r"
      and best: "g_best_performing_asset (global_data v)
                   = rk_best_performing_asset (rank_and_chart y details)"
      and worst: "g_worst_performing_asset (global_data v)
                   = rk_worst_performing_asset (rank_and_chart y details)"
      and ranked: "g_all_assets_ranked (global_data v)
                   = rk_all_assets_ranked (rank_and_chart y details)"
      and accounts: "g_all_accounts_ranked_by_performance (global_data v)
                   = ranked_accounts (snd r)"
    by blast
  from r bd have r': "breakdown d (rk_all_assets_detailed (rank_and_chart y details))
         = Inr (breakdown_data v, snd r)"
    by simp
  note rf = ranking_facts [of y details, folded ranked]
  note af = ranked_accounts_facts [of "snd r", folded accounts]
  have b: "g_best_performing_asset (global_data v)
         = (if g_all_assets_ranked (global_data v) = [] then None
            else Some (hd (g_all_assets_ranked (global_data v))))"
    unfolding best ranked by (rule rank_and_chart_best)
  have w: "g_worst_performing_asset (global_data v)
         = (if g_all_assets_ranked (global_data v) = [] then None
            else Some (last (g_all_assets_ranked (global_data v))))"
    unfolding worst ranked by (rule rank_and_chart_worst)
  have one: "length (g_all_assets_ranked (global_data v)) = 1
          \<longrightarrow> g_best_performing_asset (global_data v)
                = Some (hd (g_all_assets_ranked (global_data v)))
              \<and> g_worst_performing_asset (global_data v)
                = g_best_performing_asset (global_data v)"
  proof
    assume "length (g_all_assets_ranked (global_data v)) = 1"
    then obtain a where "g_all_assets_ranked (global_data v) = [a]"
      by (cases "g_all_assets_ranked (global_data v)") auto
    with b w show "g_best_performing_asset (global_data v)
                = Some (hd (g_all_assets_ranked (global_data v)))
              \<and> g_worst_performing_asset (global_data v)
                = g_best_performing_asset (global_data v)"
      by simp
  qed
  show ?thesis
    by (intro exI [where x = v] exI [where x = details] exI [where x = "snd r"] conjI)
      (fact v det r' rf af b w one)+
qed

lemma example_ranking_eval:
  "case emap asset_detail_of (assets_query_for_dashboard example_store) of Inl _ \<Rightarrow> False
   | Inr ds \<Rightarrow>
      (case breakdown example_store
              (rk_all_assets_detailed (rank_and_chart (\<lambda>_. []) ds)) of Inl _ \<Rightarrow> False
       | Inr r \<Rightarrow>
           map (\<lambda>a. ast_ticker_symbol (r_asset (ad_row a)))
             (rk_all_assets_ranked (rank_and_chart (\<lambda>_. []) ds)) = [''AAA'', ''DDD'', ''CCC'']
         \<and> map ad_profit_loss_percent
             (rk_all_assets_ranked (rank_and_chart (\<lambda>_. []) ds)) = [50, 50, - 50]
         \<and> map (\<lambda>a. ast_ticker_symbol (r_asset (ad_row a))) ds
             = [''AAA'', ''BBB'', ''CCC'', ''DDD'']
         \<and> map ap_account_name (ranked_accounts (snd r)) = [''Main'', ''Side''])"
  by code_simp

lemma single_asset_ranking_eval:
  "case emap asset_detail_of
          (assets_query_for_dashboard
             (example_store\<lparr> db_assets := take 1 (db_assets example_store) \<rparr>)) of
     Inl _ \<Rightarrow> False
   | Inr ds \<Rightarrow> length (rk_all_assets_ranked (rank_and_chart (\<lambda>_. []) ds)) = 1"
  by code_simp

theorem ranking_descending_stable_witness:
  "\<exists>v v1.
     index (\<lambda>_. []) ''2024-01-02'' example_store = Inr v
     \<and> map (\<lambda>a. ast_ticker_symbol (r_asset (ad_row a))) (g_all_assets_ranked (global_data v))
         = [''AAA'', ''DDD'', ''CCC'']
     \<and> map ad_profit_loss_percent (g_all_assets_ranked (global_data v)) = [50, 50, - 50]
     \<and> sorted_wrt (\<lambda>a b. ad_profit_loss_percent a \<ge> ad_profit_loss_percent b)
         (g_all_assets_ranked (global_data v))
     \<and> g_best_performing_asset (global_data v)
         = Some (hd (g_all_assets_ranked (global_data v)))
     \<and> g_worst_performing_asset (global_data v)
         = Some (last (g_all_assets_ranked (global_data v)))
     \<and> map ap_account_name (g_all_accounts_ranked_by_performance (global_data v))
         = [''Main'', ''Side'']
     \<and> sorted_wrt (\<lambda>a b. ap_profit_loss_percent a \<ge> ap_profit_loss_percent b)
         (g_all_accounts_ranked_by_performance (global_data v))
     \<and> index (\<lambda>_. []) ''2024-01-02''
          (example_store\<lparr> db_assets := take 1 (db_assets example_store) \<rparr>) = Inr v1
     \<and> length (g_all_assets_ranked (global_data v1)) = 1
     \<and> g_best_performing_asset (global_data v1)
         = Some (hd (g_all_assets_ranked (global_data v1)))
     \<and> g_worst_performing_asset (global_data v1) = g_best_performing_asset (global_data v1)"
proof -
  let ?y = "\<lambda>_ :: string. [] :: chart_data"
  let ?t = "''2024-01-02''"
  let ?d1 = "example_store\<lparr> db_assets := take 1 (db_assets example_store) \<rparr>"
  from ranking_descending_stable [of ?y ?t example_store]
  obtain v details perfs
    where v: "index ?y ?t example_store = Inr v"
      and det: "emap asset_detail_of (assets_query_for_dashboard example_store) = Inr details"
      and r: "breakdown example_store (rk_all_assets_detailed (rank_and_chart ?y details))
                = Inr (breakdown_data v, perfs)"
      and sorted: "sorted_wrt (\<lambda>a b. ad_profit_loss_percent a \<ge> ad_profit_loss_percent b)
         (g_all_assets_ranked (global_data v))"
      and best: "g_best_performing_asset (global_data v)
         = (if g_all_assets_ranked (global_data v) = [] then None
            else Some (hd (g_all_assets_ranked (global_data v))))"
      and worst: "g_worst_performing_asset (global_data v)
         = (if g_all_assets_ranked (global_data v) = [] then None
            else Some (last (g_all_assets_ranked (global_data v))))"
      and asorted: "sorted_wrt (\<lambda>a b. ap_profit_loss_percent a \<ge> ap_profit_loss_percent b)
         (g_all_accounts_ranked_by_performance (global_data v))"
    by blast
  from index_parts [OF det r, of ?t] v
  have ranked: "g_all_assets_ranked (global_data v)
                  = rk_all_assets_ranked (rank_and_chart ?y details)"
    and accounts: "g_all_accounts_ranked_by_performance (global_data v) = ranked_accounts perfs"
    by auto
  from example_ranking_eval det r have e:
    "map (\<lambda>a. ast_ticker_symbol (r_asset (ad_row a))) (g_all_assets_ranked (global_data v))
         = [''AAA'', ''DDD'', ''CCC'']"
    "map ad_profit_loss_percent (g_all_assets_ranked (global_data v)) = [50, 50, - 50]"
    "map ap_account_name (g_all_accounts_ranked_by_performance (global_data v))
         = [''Main'', ''Side'']"
    by (simp_all add: ranked accounts)
  from e(1) have ne: "g_all_assets_ranked (global_data v) \<noteq> []" by auto
  from best ne have b: "g_best_performing_asset (global_data v)
         = Some (hd (g_all_assets_ranked (global_data v)))" by simp
  from worst ne have w: "g_worst_performing_asset (global_data v)
         = Some (last (g_all_assets_ranked (global_data v)))" by simp
  from ranking_descending_stable [of ?y ?t ?d1]
  obtain v1 details1 perfs1
    where v1: "index ?y ?t ?d1 = Inr v1"
      and det1: "emap asset_detail_of (assets_query_for_dashboard ?d1) = Inr details1"
      and r1: "breakdown ?d1 (rk_all_assets_detailed (rank_and_chart ?y details1))
                = Inr (breakdown_data v1, perfs1)"
      and one: "length (g_all_assets_ranked (global_data v1)) = 1
          \<longrightarrow> g_best_performing_asset (global_data v1)
                = Some (hd (g_all_assets_ranked (global_data v1)))
              \<and> g_worst_performing_asset (global_data v1)
                = g_best_performing_asset (global_data v1)"
    by blast
  from index_parts [OF det1 r1, of ?t] v1
  have ranked1: "g_all_assets_ranked (global_data v1)
                  = rk_all_assets_ranked (rank_and_chart ?y details1)"
    by auto
  from single_asset_ranking_eval det1
  have len: "length (g_all_assets_ranked (global_data v1)) = 1"
    by (simp add: ranked1)
  with one have b1: "g_best_performing_asset (global_data v1)
                = Some (hd (g_all_assets_ranked (global_data v1)))"
    and w1: "g_worst_performing_asset (global_data v1)
                = g_best_performing_asset (global_data v1)"
    by blast+
  show ?thesis
    by (intro exI [where x = v] exI [where x = v1] conjI)
      (fact v e(1) e(2) sorted b w e(3) asorted v1 len b1 w1)+
qed

section \<open>The dashboard: allocation charts\<close>

lemma dict_add_keys: "fst ` set (dict_add k v m) = insert k (fst ` set m)"
  by (induction k v m rule: dict_add.induct) auto

lemma dict_add_distinct: "distinct (map fst m) \<Longrightarrow> distinct (map fst (dict_add k v m))"
  by (induction k v m rule: dict_add.induct) (auto simp: dict_add_keys)

lemma dict_add_map_of:
  "map_of (dict_add k v m) l =
     (if l = k then Some ((case map_of m k of None \<Rightarrow> 0 | Some w \<Rightarrow> w) + v)
      else map_of m l)"
  by (induction k v m rule: dict_add.induct) auto

lemma dict_fold_distinct:
  "distinct (map fst m) \<Longrightarrow>
     distinct (map fst (foldl (\<lambda>m x. dict_add (key x) (val x) m) m xs))"
  by (induction xs arbitrary: m) (simp_all add: dict_add_distinct)

lemma dict_fold_map_of:
  fixes key :: "'a \<Rightarrow> string" and val :: "'a \<Rightarrow> rat"
  shows "map_of (foldl (\<lambda>m x. dict_add (key x) (val x) m) m xs) l =
           (if l \<in> key ` set xs \<or> l \<in> fst ` set m
            then Some ((case map_of m l of None \<Rightarrow> 0 | Some w \<Rightarrow> w)
                       + sum_list (map val (filter (\<lambda>x. key x = l) xs)))
            else None)"
proof (induction xs arbitrary: m)
  case Nil
  show ?case
    by (cases "map_of m l") (force simp: map_of_eq_None_iff dest: map_of_SomeD)+
next
  case (Cons x xs)
  note ih = Cons.IH [of "dict_add (key x) (val x) m"]
  note mo = dict_add_map_of [of "key x" "val x" m]
  note keys = dict_add_keys [of "key x" "val x" m]
  show ?case
  proof (cases "l = key x")
    case True
    then show ?thesis
      unfolding foldl_Cons ih mo keys by (simp add: add.assoc)
  next
    case False
    then show ?thesis
      unfolding foldl_Cons ih mo keys by simp
  qed
qed

lemma account_type_values_lookup:
  "distinct (map fst (account_type_values bd))"
  "map_of (account_type_values bd) l =
     (if l \<in> as_account_type ` set (all_account_summaries bd)
      then Some (sum_list (map account_total_value
                   (filter (\<lambda>s. as_account_type s = l) (all_account_summaries bd))))
      else None)"
  using dict_fold_distinct [of "[]" as_account_type account_total_value
          "all_account_summaries bd"]
    dict_fold_map_of [of as_account_type account_total_value "[]"
          "all_account_summaries bd" l]
  by (simp_all add: account_type_values_def)

lemma account_type_values_mem:
  "(l, x) \<in> set (account_type_values bd) \<longleftrightarrow>
     l \<in> as_account_type ` set (all_account_summaries bd)
     \<and> x = sum_list (map account_total_value
               (filter (\<lambda>s. as_account_type s = l) (all_account_summaries bd)))"
proof -
  have "(l, x) \<in> set (account_type_values bd) \<longleftrightarrow> map_of (account_type_values bd) l = Some x"
    using account_type_values_lookup(1) [of bd] by simp
  then show ?thesis
    unfolding account_type_values_lookup(2) by auto
qed

lemma comprehension_filter: "[f x. x \<leftarrow> xs, P x] = map f (filter P xs)"
  by (induction xs) simp_all

lemma chart_or_empty_rows:
  "chart_or_empty (Header a b # rows) = (if rows = [] then [] else Header a b # rows)"
  by (cases rows) (simp_all add: chart_or_empty_def)

lemma chart_data_mem:
  "Data l x \<in> set (chart_or_empty (Header a b # rows)) \<longleftrightarrow> Data l x \<in> set rows"
  by (auto simp: chart_or_empty_rows)

lemma chart_empty_iff:
  "chart_or_empty (Header a b # rows) = [] \<longleftrightarrow> rows = []"
  by (simp add: chart_or_empty_rows)

lemma account_total_value_eq:
  "account_total_value s = as_current_value_of_assets s + as_cash_balance s"
  by (simp add: account_total_value_def)

lemma user_portfolio_value_eq:
  "user_portfolio_value u = us_current_value_of_assets u + us_total_cash u"
  by (simp add: user_portfolio_value_def)

lemma account_type_chart_facts:
  fixes bd
  defines "chart \<equiv> account_type_allocation_data_for_chart bd"
  defines "accounts \<equiv> all_account_summaries bd"
  shows "\<forall>l x. Data l x \<in> set chart \<longleftrightarrow>
           l \<in> as_account_type ` set accounts
           \<and> x = sum_list (map (\<lambda>s. as_current_value_of_assets s + as_cash_balance s)
                     (filter (\<lambda>s. as_account_type s = l) accounts))
           \<and> x > 0"
    and "chart = [] \<longleftrightarrow>
           (\<forall>l \<in> as_account_type ` set accounts.
              sum_list (map (\<lambda>s. as_current_value_of_assets s + as_cash_balance s)
                (filter (\<lambda>s. as_account_type s = l) accounts)) \<le> 0)"
    and "chart \<noteq> [] \<longrightarrow> hd chart = Header ''Account Type'' ''Total Value''"
proof -
  let ?rows = "[Data acc_type total_value.
                 (acc_type, total_value) \<leftarrow> account_type_values bd, total_value > 0]"
  have tv: "account_total_value = (\<lambda>s. as_current_value_of_assets s + as_cash_balance s)"
    by (rule ext) (rule account_total_value_eq)
  have rows: "Data l x \<in> set ?rows \<longleftrightarrow> (l, x) \<in> set (account_type_values bd) \<and> x > 0"
    for l x
    by auto
  show "\<forall>l x. Data l x \<in> set chart \<longleftrightarrow>
           l \<in> as_account_type ` set accounts
           \<and> x = sum_list (map (\<lambda>s. as_current_value_of_assets s + as_cash_balance s)
                     (filter (\<lambda>s. as_account_type s = l) accounts))
           \<and> x > 0"
    unfolding chart_def account_type_allocation_data_for_chart_def chart_data_mem rows
      account_type_values_mem accounts_def tv
    by blast
  have "?rows = [] \<longleftrightarrow> (\<forall>l x. (l, x) \<in> set (account_type_values bd) \<longrightarrow> \<not> x > 0)"
    by (auto simp: concat_eq_Nil_conv split: if_splits)
  then show "chart = [] \<longleftrightarrow>
           (\<forall>l \<in> as_account_type ` set accounts.
              sum_list (map (\<lambda>s. as_current_value_of_assets s + as_cash_balance s)
                (filter (\<lambda>s. as_account_type s = l) accounts)) \<le> 0)"
    unfolding chart_def account_type_allocation_data_for_chart_def chart_empty_iff
      account_type_values_mem accounts_def tv
    by (auto simp: not_less)
  show "chart \<noteq> [] \<longrightarrow> hd chart = Header ''Account Type'' ''Total Value''"
    unfolding chart_def account_type_allocation_data_for_chart_def chart_or_empty_rows
    by simp
qed

lemma user_chart_facts:
  fixes bd
  defines "chart \<equiv> user_allocation_data_for_chart bd"
  shows "\<forall>l x. Data l x \<in> set chart \<longleftrightarrow>
           (\<exists>u \<in> set bd. l = us_user_name u
              \<and> x = us_current_value_of_assets u + us_total_cash u \<and> x > 0)"
    and "chart = [] \<longleftrightarrow>
           (\<forall>u \<in> set bd. us_current_value_of_assets u + us_total_cash u \<le> 0)"
    and "chart \<noteq> [] \<longrightarrow> hd chart = Header ''User'' ''Total Portfolio Value''"
  unfolding chart_def user_allocation_data_for_chart_def comprehension_filter
    chart_data_mem chart_empty_iff chart_or_empty_rows user_portfolio_value_eq
  by (auto simp: filter_empty_conv not_less)

lemma individual_chart_facts:
  fixes perfs
  defines "chart \<equiv> individual_account_allocation_data_for_chart perfs"
  shows "\<forall>l x. Data l x \<in> set chart \<longleftrightarrow>
           (\<exists>p \<in> set perfs. l = ap_display_name p \<and> x = ap_total_value p \<and> x > 0)"
    and "chart = [] \<longleftrightarrow> (\<forall>p \<in> set perfs. ap_total_value p \<le> 0)"
    and "chart \<noteq> [] \<longrightarrow> hd chart = Header ''Account'' ''Total Value''"
  unfolding chart_def individual_account_allocation_data_for_chart_def
    comprehension_filter chart_data_mem chart_empty_iff chart_or_empty_rows
  by (auto simp: filter_empty_conv not_less)

text \<open>
  C9. In each of the three allocation charts of the dashboard (by account type, by user,
  by individual account) a data row is emitted for a group exactly when the summed total
  value of that group is positive, and it carries that total; so every emitted value is
  positive and a group whose total is not positive is left out. The chart is the empty
  list exactly when no group has a positive total; otherwise it starts with its header
  row.
\<close>

theorem allocation_charts_positive:
  "\<exists>v details perfs.
     index y today d = Inr v
     \<and> emap asset_detail_of (assets_query_for_dashboard d) = Inr details
     \<and> breakdown d (rk_all_assets_detailed (rank_and_chart y details))
         = Inr (breakdown_data v, perfs)
     \<and> (\<forall>l x. Data l x \<in> set (g_account_type_allocation_data_for_chart (global_data v)) \<longleftrightarrow>
           l \<in> as_account_type ` set (all_account_summaries (breakdown_data v))
           \<and> x = sum_list (map (\<lambda>s. as_current_value_of_assets s + as_cash_balance s)
                     (filter (\<lambda>s. as_account_type s = l)
                        (all_account_summaries (breakdown_data v))))
           \<and> x > 0)
     \<and> (g_account_type_allocation_data_for_chart (global_data v) = [] \<longleftrightarrow>
           (\<forall>l \<in> as_account_type ` set (all_account_summaries (breakdown_data v)).
              sum_list (map (\<lambda>s. as_current_value_of_assets s + as_cash_balance s)
                (filter (\<lambda>s. as_account_type s = l)
                   (all_account_summaries (breakdown_data v)))) \<le> 0))
     \<and> (g_account_type_allocation_data_for_chart (global_data v) \<noteq> [] \<longrightarrow>
           hd (g_account_type_allocation_data_for_chart (global_data v))
             = Header ''Account Type'' ''Total Value'')
     \<and> (\<forall>l x. Data l x \<in> set (g_user_allocation_data_for_chart (global_data v)) \<longleftrightarrow>
           (\<exists>u \<in> set (breakdown_data v). l = us_user_name u
              \<and> x = us_current_value_of_assets u + us_total_cash u \<and> x > 0))
     \<and> (g_user_allocation_data_for_chart (global_data v) = [] \<longleftrightarrow>
           (\<forall>u \<in> set (breakdown_data v).
              us_current_value_of_assets u + us_total_cash u \<le> 0))
     \<and> (g_user_allocation_data_for_chart (global_data v) \<noteq> [] \<longrightarrow>
           hd (g_user_allocation_data_for_chart (global_data v))
             = Header ''User'' ''Total Portfolio Value'')
     \<and> (\<forall>l x. Data l x
                 \<in> set (g_individual_account_allocation_data_for_chart (global_data v)) \<longleftrightarrow>
           (\<exists>p \<in> set perfs. l = ap_display_name p \<and> x = ap_total_value p \<and> x > 0))
     \<and> (g_individual_account_allocation_data_for_chart (global_data v) = [] \<longleftrightarrow>
           (\<forall>p \<in> set perfs. ap_total_value p \<le> 0))
     \<and> (g_individual_account_allocation_data_for_chart (global_data v) \<noteq> [] \<longrightarrow>
           hd (g_individual_account_allocation_data_for_chart (global_data v))
             = Header ''Account'' ''Total Value'')"
proof -
  obtain details where det: "emap asset_detail_of (assets_query_for_dashboard d) = Inr details"
    using all_assets_detailed_eq by blast
  obtain r where r: "breakdown d (rk_all_assets_detailed (rank_and_chart y details)) = Inr r"
    using breakdown_eq by blast
  from index_parts [OF det r, of today] obtain v
    where v: "index y today d = Inr v"
      and bd: "breakdown_data v = fst r"
      and at: "g_account_type_allocation_data_for_chart (global_data v)
                 = account_type_allocation_data_for_chart (fst r)"
      and uc: "g_user_allocation_data_for_chart (global_data v)
                 = user_allocation_data_for_chart (fst r)"
      and ic: "g_individual_account_allocation_data_for_chart (global_data v)
                 = individual_account_allocation_data_for_chart (snd r)"
    by blast
  from r bd have r': "breakdown d (rk_all_assets_detailed (rank_and_chart y details))
         = Inr (breakdown_data v, snd r)"
    by simp
  note a = account_type_chart_facts [of "fst r", folded at bd]
  note u = user_chart_facts [of "fst r", folded uc bd]
  note i = individual_chart_facts [of "snd r", folded ic]
  show ?thesis
    by (intro exI [where x = v] exI [where x = details] exI [where x = "snd r"] conjI)
      (fact v det r' a u i)+
qed

lemma example_charts_eval:
  "case emap asset_detail_of (assets_query_for_dashboard example_store) of Inl _ \<Rightarrow> False
   | Inr ds \<Rightarrow>
      (case breakdown example_store
              (rk_all_assets_detailed (rank_and_chart (\<lambda>_. []) ds)) of Inl _ \<Rightarrow> False
       | Inr r \<Rightarrow>
           account_type_allocation_data_for_chart (fst r)
             = [Header ''Account Type'' ''Total Value'', Data ''TFSA'' 2300, Data ''RRSP'' 200]
         \<and> user_allocation_data_for_chart (fst r)
             = [Header ''User'' ''Total Portfolio Value'', Data ''Ann'' 2500]
         \<and> individual_account_allocation_data_for_chart (snd r)
             = [Header ''Account'' ''Total Value'', Data ''Ann - Main (Broker)'' 2300,
                Data ''Ann - Side (Broker)'' 200]
         \<and> map us_user_name (fst r) = [''Ann'', ''Bob'']
         \<and> map ap_total_value (snd r) = [2300, 200, 0])"
  by code_simp

lemma no_value_charts_eval:
  "case emap asset_detail_of
          (assets_query_for_dashboard
             (example_store\<lparr> db_assets := [], db_accounts := drop 1 (db_accounts example_store) \<rparr>))
   of Inl _ \<Rightarrow> False
   | Inr ds \<Rightarrow>
      (case breakdown
              (example_store\<lparr> db_assets := [],
                              db_accounts := drop 1 (db_accounts example_store) \<rparr>)
              (rk_all_assets_detailed (rank_and_chart (\<lambda>_. []) ds)) of Inl _ \<Rightarrow> False
       | Inr r \<Rightarrow>
           map (\<lambda>u. us_current_value_of_assets u + us_total_cash u) (fst r) = [0, 0]
         \<and> map ap_total_value (snd r) = [0, 0]
         \<and> account_type_allocation_data_for_chart (fst r) = [])"
  by code_simp

theorem allocation_charts_positive_witness:
  "\<exists>v v0.
     index (\<lambda>_. []) ''2024-01-02'' example_store = Inr v
     \<and> g_account_type_allocation_data_for_chart (global_data v)
         = [Header ''Account Type'' ''Total Value'', Data ''TFSA'' 2300, Data ''RRSP'' 200]
     \<and> sum_list (map (\<lambda>s. as_current_value_of_assets s + as_cash_balance s)
          (filter (\<lambda>s. as_account_type s = ''TFSA'')
             (all_account_summaries (breakdown_data v)))) = 2300
     \<and> g_user_allocation_data_for_chart (global_data v)
         = [Header ''User'' ''Total Portfolio Value'', Data ''Ann'' 2500]
     \<and> map us_user_name (breakdown_data v) = [''Ann'', ''Bob'']
     \<and> g_individual_account_allocation_data_for_chart (global_data v)
         = [Header ''Account'' ''Total Value'', Data ''Ann - Main (Broker)'' 2300,
            Data ''Ann - Side (Broker)'' 200]
     \<and> index (\<lambda>_. []) ''2024-01-02''
          (example_store\<lparr> db_assets := [], db_accounts := drop 1 (db_accounts example_store) \<rparr>)
         = Inr v0
     \<and> map (\<lambda>u. us_current_value_of_assets u + us_total_cash u) (breakdown_data v0) = [0, 0]
     \<and> g_account_type_allocation_data_for_chart (global_data v0) = []
     \<and> g_user_allocation_data_for_chart (global_data v0) = []
     \<and> g_individual_account_allocation_data_for_chart (global_data v0) = []"
proof -
  let ?y = "\<lambda>_ :: string. [] :: chart_data"
  let ?t = "''2024-01-02''"
  let ?d0 = "example_store\<lparr> db_assets := [],
                             db_accounts := drop 1 (db_accounts example_store) \<rparr>"
  from allocation_charts_positive [of ?y ?t example_store]
  obtain v details perfs
    where v: "index ?y ?t example_store = Inr v"
      and det: "emap asset_detail_of (assets_query_for_dashboard example_store) = Inr details"
      and r: "breakdown example_store (rk_all_assets_detailed (rank_and_chart ?y details))
                = Inr (breakdown_data v, perfs)"
      and at: "\<forall>l x. Data l x \<in> set (g_account_type_allocation_data_for_chart (global_data v)) \<longleftrightarrow>
           l \<in> as_account_type ` set (all_account_summaries (breakdown_data v))
           \<and> x = sum_list (map (\<lambda>s. as_current_value_of_assets s + as_cash_balance s)
                     (filter (\<lambda>s. as_account_type s = l)
                        (all_account_summaries (breakdown_data v))))
           \<and> x > 0"
    by (elim exE conjE) (rule that; assumption)
  from index_parts [OF det r, of ?t] v
  have p: "g_account_type_allocation_data_for_chart (global_data v)
             = account_type_allocation_data_for_chart (breakdown_data v)"
    "g_user_allocation_data_for_chart (global_data v)
             = user_allocation_data_for_chart (breakdown_data v)"
    "g_individual_account_allocation_data_for_chart (global_data v)
             = individual_account_allocation_data_for_chart perfs"
    by auto
  from example_charts_eval det r have e:
    "g_account_type_allocation_data_for_chart (global_data v)
       = [Header ''Account Type'' ''Total Value'', Data ''TFSA'' 2300, Data ''RRSP'' 200]"
    "g_user_allocation_data_for_chart (global_data v)
       = [Header ''User'' ''Total Portfolio Value'', Data ''Ann'' 2500]"
    "g_individual_account_allocation_data_for_chart (global_data v)
       = [Header ''Account'' ''Total Value'', Data ''Ann - Main (Broker)'' 2300,
          Data ''Ann - Side (Broker)'' 200]"
    "map us_user_name (breakdown_data v) = [''Ann'', ''Bob'']"
    by (simp_all add: p)
  have mem: "Data ''TFSA'' 2300
               \<in> set (g_account_type_allocation_data_for_chart (global_data v))"
    by (simp only: e(1)) simp
  from at [rule_format, of "''TFSA''" 2300] mem have tfsa: "sum_list (map (\<lambda>s. as_current_value_of_assets s + as_cash_balance s)
          (filter (\<lambda>s. as_account_type s = ''TFSA'')
             (all_account_summaries (breakdown_data v)))) = 2300"
    by simp
  from allocation_charts_positive [of ?y ?t ?d0]
  obtain v0 details0 perfs0
    where v0: "index ?y ?t ?d0 = Inr v0"
      and det0: "emap asset_detail_of (assets_query_for_dashboard ?d0) = Inr details0"
      and r0: "breakdown ?d0 (rk_all_assets_detailed (rank_and_chart ?y details0))
                = Inr (breakdown_data v0, perfs0)"
      and uc0: "g_user_allocation_data_for_chart (global_data v0) = [] \<longleftrightarrow>
           (\<forall>u \<in> set (breakdown_data v0).
              us_current_value_of_assets u + us_total_cash u \<le> 0)"
      and ic0: "g_individual_account_allocation_data_for_chart (global_data v0) = [] \<longleftrightarrow>
           (\<forall>p \<in> set perfs0. ap_total_value p \<le> 0)"
    by (elim exE conjE) (rule that; assumption)
  from index_parts [OF det0 r0, of ?t] v0
  have p0: "g_account_type_allocation_data_for_chart (global_data v0)
             = account_type_allocation_data_for_chart (breakdown_data v0)"
    by auto
  from no_value_charts_eval det0 r0 have e0:
    "map (\<lambda>u. us_current_value_of_assets u + us_total_cash u) (breakdown_data v0) = [0, 0]"
    "map ap_total_value perfs0 = [0, 0]"
    "g_account_type_allocation_data_for_chart (global_data v0) = []"
    by (simp_all add: p0)
  have "\<forall>x \<in> set (map (\<lambda>u. us_current_value_of_assets u + us_total_cash u)
                     (breakdown_data v0)). x \<le> 0"
    by (simp only: e0(1)) simp
  then have "\<forall>u \<in> set (breakdown_data v0).
              us_current_value_of_assets u + us_total_cash u \<le> 0"
    by simp
  with uc0 have u0: "g_user_allocation_data_for_chart (global_data v0) = []"
    by (rule iffD2)
  have "\<forall>x \<in> set (map ap_total_value perfs0). x \<le> 0"
    by (simp only: e0(2)) simp
  then have "\<forall>p \<in> set perfs0. ap_total_value p \<le> 0"
    by simp
  with ic0 have i0: "g_individual_account_allocation_data_for_chart (global_data v0) = []"
    by (rule iffD2)
  show ?thesis
    by (intro exI [where x = v] exI [where x = v0] conjI)
      (fact v e(1) tfsa e(2) e(4) e(3) v0 e0(1) e0(3) u0 i0)+
qed

section \<open>Refreshing one asset\<close>

lemma update_market_columns_find:
  "asset_by_id assets i = Some a \<Longrightarrow>
     asset_by_id (update_market_columns i md n assets) i
       = Some (a\<lparr> ast_current_price := md_current_price md,
                   ast_price_yesterday := md_price_yesterday md,
                   ast_fifty_two_week_high := md_fifty_two_week_high md,
                   ast_fifty_two_week_low := md_fifty_two_week_low md,
                   ast_name := n \<rparr>)"
  unfolding asset_by_id_def update_market_columns_def
  by (induction assets) (auto split: if_splits)

lemma update_market_columns_others:
  "c \<in> set assets \<Longrightarrow> ast_asset_id c \<noteq> i \<Longrightarrow> c \<in> set (update_market_columns i md n assets)"
  unfolding update_market_columns_def by force

lemma update_market_columns_length:
  "length (update_market_columns i md n assets) = length assets"
  by (simp add: update_market_columns_def)

lemma numeric_or_none_cases:
  "numeric_or_none v = (case v of PyNum x \<Rightarrow> Some x | _ \<Rightarrow> None)"
  by (cases v) simp_all

lemma fetch_market_data_fields:
  assumes "yf t = Some td"
  shows "\<exists>md. fetch_market_data yf t = Some md
     \<and> md_current_price md =
         (if td_hist_close td \<noteq> [] then Some (last (td_hist_close td))
          else numeric_or_none
                 (info_get (td_info td) ''currentPrice''
                    (info_get (td_info td) ''regularMarketPreviousClose''
                       (info_get (td_info td) ''bid''
                          (info_get (td_info td) ''ask'' PyNone)))))
     \<and> md_price_yesterday md =
         (if length (td_hist_close td) \<ge> 2
          then Some (td_hist_close td ! (length (td_hist_close td) - 2))
          else numeric_or_none
                 (info_get (td_info td) ''previousClose''
                    (info_get (td_info td) ''regularMarketPreviousClose'' PyNone)))
     \<and> md_fifty_two_week_high md =
         (case td_info td ''fiftyTwoWeekHigh'' of Some (PyNum x) \<Rightarrow> Some x | _ \<Rightarrow> None)
     \<and> md_fifty_two_week_low md =
         (case td_info td ''fiftyTwoWeekLow'' of Some (PyNum x) \<Rightarrow> Some x | _ \<Rightarrow> None)"
  using assms
  by (auto simp: fetch_market_data_def Let_def info_get_def numeric_or_none_cases
           split: option.splits py_value.splits)

text \<open>
  C8, as amended. When the gateway call for an existing asset fails, the refresh leaves
  the store as it is and reports a warning. When the gateway answers, the refresh reports
  success and overwrites each of the four stored price fields of that asset: with the
  returned number where the gateway returned a number (the last and the second-last
  close of the history where there are such, else the fallback keys of the quote), and
  with null where the value is absent or not a number. A non-numeric value is never
  stored; the cost fields of the asset, the other assets and the other tables are
  untouched.
\<close>

theorem refresh_asset_data_outcome:
  assumes "asset_by_id (db_assets d) asset_id = Some a"
  shows "(yf (ast_ticker_symbol a) = None \<longrightarrow>
            refresh_asset_data yf asset_id d = (CouldNotFetch, d)
            \<and> refresh_category CouldNotFetch = Warning)
     \<and> (\<forall>td. yf (ast_ticker_symbol a) = Some td \<longrightarrow>
          (\<exists>d' md b.
              refresh_asset_data yf asset_id d = (RefreshedSuccessfully, d')
            \<and> refresh_category RefreshedSuccessfully = Success
            \<and> fetch_market_data yf (ast_ticker_symbol a) = Some md
            \<and> asset_by_id (db_assets d') asset_id = Some b
            \<and> ast_current_price b = md_current_price md
            \<and> ast_price_yesterday b = md_price_yesterday md
            \<and> ast_fifty_two_week_high b = md_fifty_two_week_high md
            \<and> ast_fifty_two_week_low b = md_fifty_two_week_low md
            \<and> md_current_price md =
                (if td_hist_close td \<noteq> [] then Some (last (td_hist_close td))
                 else numeric_or_none
                        (info_get (td_info td) ''currentPrice''
                           (info_get (td_info td) ''regularMarketPreviousClose''
                              (info_get (td_info td) ''bid''
                                 (info_get (td_info td) ''ask'' PyNone)))))
            \<and> md_price_yesterday md =
                (if length (td_hist_close td) \<ge> 2
                 then Some (td_hist_close td ! (length (td_hist_close td) - 2))
                 else numeric_or_none
                        (info_get (td_info td) ''previousClose''
                           (info_get (td_info td) ''regularMarketPreviousClose'' PyNone)))
            \<and> md_fifty_two_week_high md =
                (case td_info td ''fiftyTwoWeekHigh'' of
                   Some (PyNum x) \<Rightarrow> Some x | _ \<Rightarrow> None)
            \<and> md_fifty_two_week_low md =
                (case td_info td ''fiftyTwoWeekLow'' of
                   Some (PyNum x) \<Rightarrow> Some x | _ \<Rightarrow> None)
            \<and> ast_asset_id b = ast_asset_id a
            \<and> ast_account_id b = ast_account_id a
            \<and> ast_ticker_symbol b = ast_ticker_symbol a
            \<and> ast_quantity b = ast_quantity a
            \<and> ast_average_cost b = ast_average_cost a
            \<and> ast_total_invested b = ast_total_invested a
            \<and> length (db_assets d') = length (db_assets d)
            \<and> (\<forall>c \<in> set (db_assets d). ast_asset_id c \<noteq> asset_id
                  \<longrightarrow> c \<in> set (db_assets d'))
            \<and> db_users d' = db_users d \<and> db_platforms d' = db_platforms d
            \<and> db_accounts d' = db_accounts d
            \<and> db_portfolio_history d' = db_portfolio_history d))"
proof (intro conjI allI impI)
  assume "yf (ast_ticker_symbol a) = None"
  then show "refresh_asset_data yf asset_id d = (CouldNotFetch, d)"
    using assms by (simp add: refresh_asset_data_def fetch_market_data_def)
next
  show "refresh_category CouldNotFetch = Warning" by simp
next
  fix td assume td: "yf (ast_ticker_symbol a) = Some td"
  from fetch_market_data_fields [of yf "ast_ticker_symbol a" td, OF td] obtain md
    where md: "fetch_market_data yf (ast_ticker_symbol a) = Some md"
      and f: "md_current_price md =
                (if td_hist_close td \<noteq> [] then Some (last (td_hist_close td))
                 else numeric_or_none
                        (info_get (td_info td) ''currentPrice''
                           (info_get (td_info td) ''regularMarketPreviousClose''
                              (info_get (td_info td) ''bid''
                                 (info_get (td_info td) ''ask'' PyNone)))))"
         "md_price_yesterday md =
                (if length (td_hist_close td) \<ge> 2
                 then Some (td_hist_close td ! (length (td_hist_close td) - 2))
                 else numeric_or_none
                        (info_get (td_info td) ''previousClose''
                           (info_get (td_info td) ''regularMarketPreviousClose'' PyNone)))"
         "md_fifty_two_week_high md =
                (case td_info td ''fiftyTwoWeekHigh'' of
                   Some (PyNum x) \<Rightarrow> Some x | _ \<Rightarrow> None)"
         "md_fifty_two_week_low md =
                (case td_info td ''fiftyTwoWeekLow'' of
                   Some (PyNum x) \<Rightarrow> Some x | _ \<Rightarrow> None)"
    by (elim exE conjE) (rule that; assumption)
  define n where "n = (if truthy (md_name md)
                        \<and> (ast_name a = None \<or> ast_name a = Some [])
                     then text_or_none (md_name md) else ast_name a)"
  define d' where "d' = d\<lparr> db_assets := update_market_columns asset_id md n (db_assets d) \<rparr>"
  define b where "b = a\<lparr> ast_current_price := md_current_price md,
                   ast_price_yesterday := md_price_yesterday md,
                   ast_fifty_two_week_high := md_fifty_two_week_high md,
                   ast_fifty_two_week_low := md_fifty_two_week_low md,
                   ast_name := n \<rparr>"
  have run: "refresh_asset_data yf asset_id d = (RefreshedSuccessfully, d')"
    using assms md by (simp add: refresh_asset_data_def Let_def d'_def n_def)
  have found: "asset_by_id (db_assets d') asset_id = Some b"
    unfolding d'_def b_def using update_market_columns_find [OF assms] by simp
  have others: "\<forall>c \<in> set (db_assets d). ast_asset_id c \<noteq> asset_id
                  \<longrightarrow> c \<in> set (db_assets d')"
    unfolding d'_def using update_market_columns_others by simp
  have len: "length (db_assets d') = length (db_assets d)"
    unfolding d'_def by (simp add: update_market_columns_length)
  have same: "ast_current_price b = md_current_price md"
    "ast_price_yesterday b = md_price_yesterday md"
    "ast_fifty_two_week_high b = md_fifty_two_week_high md"
    "ast_fifty_two_week_low b = md_fifty_two_week_low md"
    "ast_asset_id b = ast_asset_id a" "ast_account_id b = ast_account_id a"
    "ast_ticker_symbol b = ast_ticker_symbol a" "ast_quantity b = ast_quantity a"
    "ast_average_cost b = ast_average_cost a" "ast_total_invested b = ast_total_invested a"
    by (simp_all add: b_def)
  have tables: "db_users d' = db_users d" "db_platforms d' = db_platforms d"
    "db_accounts d' = db_accounts d" "db_portfolio_history d' = db_portfolio_history d"
    by (simp_all add: d'_def)
  have cat: "refresh_category RefreshedSuccessfully = Success" by simp
  show "\<exists>d' md b.
              refresh_asset_data yf asset_id d = (RefreshedSuccessfully, d')
            \<and> refresh_category RefreshedSuccessfully = Success
            \<and> fetch_market_data yf (ast_ticker_symbol a) = Some md
            \<and> asset_by_id (db_assets d') asset_id = Some b
            \<and> ast_current_price b = md_current_price md
            \<and> ast_price_yesterday b = md_price_yesterday md
            \<and> ast_fifty_two_week_high b = md_fifty_two_week_high md
            \<and> ast_fifty_two_week_low b = md_fifty_two_week_low md
            \<and> md_current_price md =
                (if td_hist_close td \<noteq> [] then Some (last (td_hist_close td))
                 else numeric_or_none
                        (info_get (td_info td) ''currentPrice''
                           (info_get (td_info td) ''regularMarketPreviousClose''
                              (info_get (td_info td) ''bid''
                                 (info_get (td_info td) ''ask'' PyNone)))))
            \<and> md_price_yesterday md =
                (if length (td_hist_close td) \<ge> 2
                 then Some (td_hist_close td ! (length (td_hist_close td) - 2))
                 else numeric_or_none
                        (info_get (td_info td) ''previousClose''
                           (info_get (td_info td) ''regularMarketPreviousClose'' PyNone)))
            \<and> md_fifty_two_week_high md =
                (case td_info td ''fiftyTwoWeekHigh'' of
                   Some (PyNum x) \<Rightarrow> Some x | _ \<Rightarrow> None)
            \<and> md_fifty_two_week_low md =
                (case td_info td ''fiftyTwoWeekLow'' of
                   Some (PyNum x) \<Rightarrow> Some x | _ \<Rightarrow> None)
            \<and> ast_asset_id b = ast_asset_id a
            \<and> ast_account_id b = ast_account_id a
            \<and> ast_ticker_symbol b = ast_ticker_symbol a
            \<and> ast_quantity b = ast_quantity a
            \<and> ast_average_cost b = ast_average_cost a
            \<and> ast_total_invested b = ast_total_invested a
            \<and> length (db_assets d') = length (db_assets d)
            \<and> (\<forall>c \<in> set (db_assets d). ast_asset_id c \<noteq> asset_id
                  \<longrightarrow> c \<in> set (db_assets d'))
            \<and> db_users d' = db_users d \<and> db_platforms d' = db_platforms d
            \<and> db_accounts d' = db_accounts d
            \<and> db_portfolio_history d' = db_portfolio_history d"
    by (intro exI [where x = d'] exI [where x = md] exI [where x = b] conjI)
      (fact run cat md found same f len others tables)+
qed

lemma zero_cost_asset_eval:
  "asset_by_id (db_assets zero_cost_store) 1 = Some (hd (db_assets zero_cost_store))"
  by code_simp

theorem refresh_asset_data_outcome_witness:
  "refresh_asset_data failing_gateway 1 zero_cost_store = (CouldNotFetch, zero_cost_store)
   \<and> refresh_category CouldNotFetch = Warning
   \<and> (\<exists>d' b. refresh_asset_data numeric_gateway 1 zero_cost_store
                 = (RefreshedSuccessfully, d')
         \<and> asset_by_id (db_assets d') 1 = Some b
         \<and> ast_current_price b = Some 12
         \<and> ast_price_yesterday b = Some 11
         \<and> ast_fifty_two_week_high b = Some 15
         \<and> ast_fifty_two_week_low b = Some 5
         \<and> ast_total_invested b = ast_total_invested (hd (db_assets zero_cost_store)))"
proof -
  let ?a = "hd (db_assets zero_cost_store)"
  let ?td = "\<lparr> td_info = [''fiftyTwoWeekHigh'' \<mapsto> PyNum 15, ''fiftyTwoWeekLow'' \<mapsto> PyNum 5,
                           ''shortName'' \<mapsto> PyStr ''Zed''],
               td_hist_close = [11, 12 :: rat] \<rparr>"
  note t = refresh_asset_data_outcome [OF zero_cost_asset_eval]
  have "failing_gateway (ast_ticker_symbol ?a) = None"
    by (simp add: failing_gateway_def)
  with t [of failing_gateway, THEN conjunct1]
  have 1: "refresh_asset_data failing_gateway 1 zero_cost_store = (CouldNotFetch, zero_cost_store)"
    and 2: "refresh_category CouldNotFetch = Warning"
    by blast+
  have g: "numeric_gateway (ast_ticker_symbol ?a) = Some ?td"
    by (simp add: numeric_gateway_def)
  from t [of numeric_gateway, THEN conjunct2, rule_format, OF g]
  obtain d' and md :: market_data and b
    where run: "refresh_asset_data numeric_gateway 1 zero_cost_store
                  = (RefreshedSuccessfully, d')"
      and found: "asset_by_id (db_assets d') 1 = Some b"
      and same: "ast_current_price b = md_current_price md"
        "ast_price_yesterday b = md_price_yesterday md"
        "ast_fifty_two_week_high b = md_fifty_two_week_high md"
        "ast_fifty_two_week_low b = md_fifty_two_week_low md"
      and f: "md_current_price md =
                (if td_hist_close ?td \<noteq> [] then Some (last (td_hist_close ?td))
                 else numeric_or_none
                        (info_get (td_info ?td) ''currentPrice''
                           (info_get (td_info ?td) ''regularMarketPreviousClose''
                              (info_get (td_info ?td) ''bid''
                                 (info_get (td_info ?td) ''ask'' PyNone)))))"
         "md_price_yesterday md =
                (if length (td_hist_close ?td) \<ge> 2
                 then Some (td_hist_close ?td ! (length (td_hist_close ?td) - 2))
                 else numeric_or_none
                        (info_get (td_info ?td) ''previousClose''
                           (info_get (td_info ?td) ''regularMarketPreviousClose'' PyNone)))"
         "md_fifty_two_week_high md =
                (case td_info ?td ''fiftyTwoWeekHigh'' of
                   Some (PyNum x) \<Rightarrow> Some x | _ \<Rightarrow> None)"
         "md_fifty_two_week_low md =
                (case td_info ?td ''fiftyTwoWeekLow'' of
                   Some (PyNum x) \<Rightarrow> Some x | _ \<Rightarrow> None)"
      and ti: "ast_total_invested b = ast_total_invested ?a"
    by (elim exE conjE) (rule that, assumption+)
  have v: "ast_current_price b = Some 12" "ast_price_yesterday b = Some 11"
    "ast_fifty_two_week_high b = Some 15" "ast_fifty_two_week_low b = Some 5"
    unfolding same f by simp_all
  have 3: "\<exists>d' b. refresh_asset_data numeric_gateway 1 zero_cost_store
                 = (RefreshedSuccessfully, d')
         \<and> asset_by_id (db_assets d') 1 = Some b
         \<and> ast_current_price b = Some 12
         \<and> ast_price_yesterday b = Some 11
         \<and> ast_fifty_two_week_high b = Some 15
         \<and> ast_fifty_two_week_low b = Some 5
         \<and> ast_total_invested b = ast_total_invested ?a"
    by (intro exI [where x = d'] exI [where x = b] conjI) (fact run found v ti)+
  from 1 2 3 show ?thesis by (intro conjI)
qed

text \<open>
  C8 as stated fails when the gateway answers with non-numeric data: the stored price
  fields are overwritten with null, their previous values are lost, and the request
  reports success.
\<close>

theorem refresh_non_numeric_counterexample:
  "map ast_current_price (db_assets zero_cost_store) = [Some 10]
   \<and> map ast_fifty_two_week_high (db_assets zero_cost_store) = [Some 10]
   \<and> fst (refresh_asset_data non_numeric_gateway 1 zero_cost_store) = RefreshedSuccessfully
   \<and> refresh_category (fst (refresh_asset_data non_numeric_gateway 1 zero_cost_store))
       = Success
   \<and> map ast_current_price
        (db_assets (snd (refresh_asset_data non_numeric_gateway 1 zero_cost_store))) = [None]
   \<and> map ast_fifty_two_week_high
        (db_assets (snd (refresh_asset_data non_numeric_gateway 1 zero_cost_store))) = [None]"
  by code_simp

end
